theory Spec2Isabelle
  imports Complex_Main "HOL-Library.Log_Nat"
begin

section \<open>Python values shared by both scripts\<close>

text \<open>
  Exceptions the two scripts can meet, as values. \<open>FileNotFoundError\<close> carries the text of
  the exception (what \<open>str(e)\<close> prints); \<open>OtherError\<close> stands for every exception class
  that is not \<open>FileNotFoundError\<close> (pandas' \<open>EmptyDataError\<close>, \<open>ParserError\<close>,
  \<open>PermissionError\<close>, ...).
\<close>

datatype py_error =
    FileNotFoundError string
  | ValueError
  | IndexError
  | OtherError string

text \<open>Running a fallible function over a column stops at the first exception.\<close>

fun apply_col :: "('a \<Rightarrow> py_error + 'b) \<Rightarrow> 'a list \<Rightarrow> py_error + 'b list" where
  "apply_col f [] = Inr []"
| "apply_col f (x # xs) =
     (case f x of
        Inl e \<Rightarrow> Inl e
      | Inr y \<Rightarrow> (case apply_col f xs of Inl e \<Rightarrow> Inl e | Inr ys \<Rightarrow> Inr (y # ys)))"

text \<open>The seven-colour palette of the chart builders.\<close>

definition palette :: "string list" where
  "palette = [''#3498db'', ''#e74c3c'', ''#f39c12'', ''#2ecc71'', ''#9b59b6'',
              ''#34495e'', ''#1abc9c'']"

subsection \<open>Floats\<close>

text \<open>
  A Python float (and a numpy \<open>float64\<close>) is an IEEE 754 double. A finite double is
  modelled by its exact value, a rational number; NaN, the infinities and the sign of zero
  are outside this model, and so is overflow. Every arithmetic operation computes the exact
  result and rounds it to the nearest double, ties to the even mantissa.
\<close>

type_synonym pyfloat = rat

definition round_half_even :: "rat \<Rightarrow> int" where
  "round_half_even x =
     (let f = \<lfloor>x\<rfloor>; d = x - of_int f
      in if d < 1/2 then f else if 1/2 < d then f + 1 else if even f then f else f + 1)"

text \<open>For \<open>0 < x\<close>, the exponent \<open>e\<close> with \<open>2 ^ e \<le> x < 2 ^ (e + 1)\<close>.\<close>

definition ilog2 :: "rat \<Rightarrow> int" where
  "ilog2 x = (let (p, q) = quotient_of x; d = bitlen p - bitlen q
              in if x < 2 powi d then d - 1 else d)"

text \<open>
  The nearest double: 53 bits of mantissa, the exponent not below that of the subnormal
  numbers.
\<close>

definition round_double :: "rat \<Rightarrow> pyfloat" where
  "round_double x =
     (if x = 0 then 0
      else let e = max (ilog2 \<bar>x\<bar>) (- 1022); u = 2 powi (e - 52)
           in of_int (round_half_even (x / u)) * u)"

definition fadd :: "pyfloat \<Rightarrow> pyfloat \<Rightarrow> pyfloat" where
  "fadd a b = round_double (a + b)"

definition fsub :: "pyfloat \<Rightarrow> pyfloat \<Rightarrow> pyfloat" where
  "fsub a b = round_double (a - b)"

definition fmul :: "pyfloat \<Rightarrow> pyfloat \<Rightarrow> pyfloat" where
  "fmul a b = round_double (a * b)"

text \<open>True division by a non-zero constant (the scripts divide by constants only).\<close>

definition fdiv :: "pyfloat \<Rightarrow> pyfloat \<Rightarrow> pyfloat" where
  "fdiv a b = round_double (a / b)"

text \<open>The double a decimal literal of the source or a cell of a CSV file denotes.\<close>

definition float_literal :: "rat \<Rightarrow> pyfloat" where
  "float_literal q = round_double q"

subsection \<open>Numbers as text\<close>

definition digit_char :: "int \<Rightarrow> char" where
  "digit_char d = char_of (48 + d)"

function str_digits :: "int \<Rightarrow> string" where
  "str_digits n =
     (if n < 10 then [digit_char n] else str_digits (n div 10) @ [digit_char (n mod 10)])"
  by pat_completeness auto
termination
  by (relation "measure nat") auto

declare str_digits.simps [simp del]

text \<open>\<open>str(i)\<close> of an integer.\<close>

definition str_int :: "int \<Rightarrow> string" where
  "str_int i = (if i < 0 then ''-'' @ str_digits (- i) else str_digits i)"

definition zfill :: "nat \<Rightarrow> string \<Rightarrow> string" where
  "zfill w s = replicate (w - length s) CHR ''0'' @ s"

text \<open>
  The format specification \<open>.Nf\<close> of a float: the exact value rounded to \<open>prec\<close> decimals,
  ties to even, with a minus sign for every negative float (also when the digits are all
  zero).
\<close>

definition format_fixed :: "nat \<Rightarrow> pyfloat \<Rightarrow> string" where
  "format_fixed prec x =
     (let n = round_half_even (\<bar>x\<bar> * 10 ^ prec)
      in (if x < 0 then ''-'' else []) @ str_digits (n div 10 ^ prec) @
         (if prec = 0 then [] else ''.'' @ zfill prec (str_digits (n mod 10 ^ prec))))"

text \<open>
  \<open>str(x)\<close> of a float, which an f-string without a format specification uses: the shortest
  decimal that reads back as the same double, in positional notation when the decimal point
  falls within the digits or at most three zeros before and up to sixteen digits, in exponent
  notation otherwise.
\<close>

definition ilog10 :: "rat \<Rightarrow> int" where
  "ilog10 a = (let g = (ilog2 a * 30103) div 100000
               in if a < 10 powi g then g - 1 else if 10 powi (g + 1) \<le> a then g + 1 else g)"

definition repr_candidate :: "rat \<Rightarrow> int \<Rightarrow> nat \<Rightarrow> (int \<times> int) option" where
  "repr_candidate a e10 k =
     (let ex = e10 - int k + 1;
          s = a / 10 powi ex;
          lo = \<lfloor>s\<rfloor>;
          ok_lo = (round_double (of_int lo * 10 powi ex) = a);
          ok_hi = (round_double (of_int (lo + 1) * 10 powi ex) = a);
          r = s - of_int lo;
          nearer_hi = (1/2 < r \<or> (r = 1/2 \<and> odd lo))
      in if ok_lo \<and> ok_hi then Some (if nearer_hi then lo + 1 else lo, ex)
         else if ok_lo then Some (lo, ex)
         else if ok_hi then Some (lo + 1, ex)
         else None)"

fun first_candidate :: "rat \<Rightarrow> int \<Rightarrow> nat list \<Rightarrow> (int \<times> int) option" where
  "first_candidate a e10 [] = None"
| "first_candidate a e10 (k # ks) =
     (case repr_candidate a e10 k of Some c \<Rightarrow> Some c | None \<Rightarrow> first_candidate a e10 ks)"

function strip_zeros :: "int \<Rightarrow> int \<Rightarrow> int \<times> int" where
  "strip_zeros n ex =
     (if 0 < n \<and> n mod 10 = 0 then strip_zeros (n div 10) (ex + 1) else (n, ex))"
  by pat_completeness auto
termination
  by (relation "measure (\<lambda>(n, ex). nat n)") auto

declare strip_zeros.simps [simp del]

definition shortest_digits :: "rat \<Rightarrow> string \<times> int" where
  "shortest_digits a =
     (case first_candidate a (ilog10 a) [1..<18] of
        None \<Rightarrow> (''0'', 1)
      | Some (n, ex) \<Rightarrow>
          (let (m, ex') = strip_zeros n ex; ds = str_digits m
           in (ds, int (length ds) + ex')))"

definition float_str :: "pyfloat \<Rightarrow> string" where
  "float_str x =
     (if x = 0 then ''0.0''
      else
        let (ds, decpt) = shortest_digits \<bar>x\<bar>;
            m = int (length ds);
            body =
              (if decpt \<le> - 4 \<or> 16 < decpt then
                 take 1 ds @ (if 1 < m then ''.'' @ drop 1 ds else []) @ ''e'' @
                 (if decpt - 1 < 0 then ''-'' else ''+'') @ zfill 2 (str_digits \<bar>decpt - 1\<bar>)
               else if decpt \<le> 0 then ''0.'' @ replicate (nat (- decpt)) CHR ''0'' @ ds
               else if m \<le> decpt then ds @ replicate (nat (decpt - m)) CHR ''0'' @ ''.0''
               else take (nat decpt) ds @ ''.'' @ drop (nat decpt) ds)
        in (if x < 0 then ''-'' else []) @ body)"

subsection \<open>Numbers in a row of a table\<close>

text \<open>
  An element of a numeric column, as the row of a table holds it: an integer where pandas
  read the column as \<open>int64\<close> (every cell of the column is an integer), a float otherwise.
  The float \<open>-0.0\<close> is a value of its own here, since it prints with its sign. NaN and the
  infinities are outside this model.
\<close>

datatype py_number = PyInt int | PyFloat pyfloat | PyNegZero

text \<open>The comparison \<open>x > 0\<close>.\<close>

definition gt_zero :: "py_number \<Rightarrow> bool" where
  "gt_zero x = (case x of PyInt i \<Rightarrow> 0 < i | PyFloat f \<Rightarrow> 0 < f | PyNegZero \<Rightarrow> False)"

text \<open>\<open>str(x)\<close>, which an f-string without a format specification uses.\<close>

definition number_str :: "py_number \<Rightarrow> string" where
  "number_str x =
     (case x of PyInt i \<Rightarrow> str_int i | PyFloat f \<Rightarrow> float_str f | PyNegZero \<Rightarrow> ''-0.0'')"

text \<open>
  The format specification \<open>.Nf\<close>: an integer is converted to the nearest float first.
\<close>

definition number_fixed :: "nat \<Rightarrow> py_number \<Rightarrow> string" where
  "number_fixed prec x =
     (case x of
        PyInt i \<Rightarrow> format_fixed prec (round_double (of_int i))
      | PyFloat f \<Rightarrow> format_fixed prec f
      | PyNegZero \<Rightarrow> ''-0'' @ (if prec = 0 then [] else ''.'' @ replicate prec CHR ''0''))"

text \<open>The number with the opposite sign (used to build sample inputs).\<close>

definition negate :: "py_number \<Rightarrow> py_number" where
  "negate x = (case x of PyInt i \<Rightarrow> PyInt (- i) | PyFloat f \<Rightarrow> PyFloat (- f) | PyNegZero \<Rightarrow> PyFloat 0)"

section \<open>dashboard.py\<close>

subsection \<open>The KPI indicator builder\<close>

text \<open>
  One row of \<open>metrics.csv\<close>. The column \<open>value\<close> is called \<open>amount\<close> here. \<open>prefix\<close> and
  \<open>suffix\<close> are \<open>None\<close> where pandas read an empty cell (\<open>pd.isna\<close>).
\<close>

record metric_row =
  metric :: string
  amount :: py_number
  delta :: py_number
  prefix :: "string option"
  suffix :: "string option"

text \<open>
  \<open>str.upper\<close> on a name made of ASCII characters: the letters a to z become A to Z. Names
  with other letters, which Python maps by the Unicode rules, are outside this model.
\<close>

definition upper_char :: "char \<Rightarrow> char" where
  "upper_char c =
     (let n = (of_char c :: nat) in if 97 \<le> n \<and> n \<le> 122 then char_of (n - 32) else c)"

definition upper :: "string \<Rightarrow> string" where
  "upper s = map upper_char s"

text \<open>
  What \<open>go.Indicator\<close> and \<open>update_layout\<close> receive. The fonts, margins and colours are
  constants of the source and are left out.
\<close>

record indicator =
  mode :: string
  title_text :: string
  number_value :: py_number
  number_prefix :: string
  number_suffix :: string
  height :: nat

text \<open>
  The string literals of the source for the two directions, byte by byte (UTF-8). In the
  source file they are the doubly encoded forms of the arrows U+2191 and U+2193.
\<close>

definition indicator_up :: string where
  "indicator_up = [CHR 0xC3, CHR 0xA2, CHR 0xE2, CHR 0x80, CHR 0xA0, CHR 0xE2, CHR 0x80, CHR 0x98]"

definition indicator_down :: string where
  "indicator_down = [CHR 0xC3, CHR 0xA2, CHR 0xE2, CHR 0x80, CHR 0xA0, CHR 0xE2, CHR 0x80, CHR 0x9C]"

definition kpi_indicator :: "metric_row \<Rightarrow> indicator" where
  "kpi_indicator row =
     (let prefix' = (case prefix row of None \<Rightarrow> [] | Some p \<Rightarrow> p);
          suffix' = (case suffix row of None \<Rightarrow> [] | Some s \<Rightarrow> s);
          delta_color = (if gt_zero (delta row) then ''green'' else ''red'');
          delta_symbol = (if gt_zero (delta row) then indicator_up else indicator_down)
      in \<lparr> mode = ''number'',
           title_text = ''<b>'' @ upper (metric row) @ ''</b>'',
           number_value = amount row,
           number_prefix = prefix',
           number_suffix = suffix',
           height = 120 \<rparr>)"

definition create_kpi_indicators :: "metric_row list \<Rightarrow> indicator list" where
  "create_kpi_indicators metrics = map kpi_indicator metrics"

subsection \<open>The KPI cards\<close>

text \<open>
  The literals of \<open>generate_kpi_cards_html\<close>, byte by byte (UTF-8); in the source file they
  are the doubly encoded forms of the arrows U+2197 and U+2198.
\<close>

definition card_up :: string where
  "card_up = [CHR 0xC3, CHR 0xA2, CHR 0xE2, CHR 0x80, CHR 0xA0, CHR 0xE2, CHR 0x80, CHR 0x94]"

definition card_down :: string where
  "card_down = [CHR 0xC3, CHR 0xA2, CHR 0xE2, CHR 0x80, CHR 0xA0, CHR 0xCB, CHR 0x9C]"

definition delta_class :: "metric_row \<Rightarrow> string" where
  "delta_class row = (if gt_zero (delta row) then ''positive'' else ''negative'')"

definition delta_symbol :: "metric_row \<Rightarrow> string" where
  "delta_symbol row = (if gt_zero (delta row) then card_up else card_down)"

definition delta_text :: "metric_row \<Rightarrow> string" where
  "delta_text row =
     (if suffix row \<noteq> None \<and> suffix row = Some ''M''
      then delta_symbol row @ '' '' @ number_fixed 1 (delta row) @ ''%''
      else
        let prefix' = (case prefix row of Some p \<Rightarrow> p | None \<Rightarrow> []);
            suffix' = (case suffix row of Some s \<Rightarrow> s | None \<Rightarrow> [])
        in delta_symbol row @ '' '' @ prefix' @ number_str (delta row) @ suffix')"

text \<open>
  One card: its grid column, the HTML plotly makes of the indicator figure, and the class and
  text of the delta line.
\<close>

record kpi_card =
  grid_column :: int
  figure_html :: string
  card_class :: string
  card_text :: string

definition newline :: string where
  "newline = [CHR 0x0A]"

definition indent :: "nat \<Rightarrow> string" where
  "indent n = replicate n CHR '' ''"

text \<open>The f-string appended to \<open>cards_html\<close> for one card.\<close>

definition card_html :: "kpi_card \<Rightarrow> string" where
  \<open>card_html c =
     newline @ indent 8 @ ''<div class="card kpi-card" style="grid-row: 1; grid-column: '' @
       str_int (grid_column c) @ '';">'' @
     newline @ indent 12 @ figure_html c @
     newline @ indent 12 @ ''<div class="delta-indicator">'' @
     newline @ indent 16 @ ''<span class="'' @ card_class c @ ''">'' @ card_text c @ ''</span>'' @
     newline @ indent 12 @ ''</div>'' @
     newline @ indent 8 @ ''</div>'' @
     newline @ indent 8\<close>

text \<open>
  The body of the loop for index \<open>i\<close>. \<open>to_html\<close> is plotly's rendering of a figure; its
  second argument tells whether \<open>include_plotlyjs\<close> is \<open>'cdn'\<close>. \<open>indicator_figs[i]\<close> raises
  \<open>IndexError\<close> beyond the end of the list.
\<close>

definition kpi_card_at ::
  "(indicator \<Rightarrow> bool \<Rightarrow> string) \<Rightarrow> metric_row list \<Rightarrow> indicator list \<Rightarrow> nat \<Rightarrow> py_error + kpi_card"
where
  "kpi_card_at to_html metrics indicator_figs i =
     (let row = metrics ! i in
      if i < length indicator_figs
      then Inr \<lparr> grid_column = int i + 1,
                 figure_html = to_html (indicator_figs ! i) (i = 0),
                 card_class = delta_class row,
                 card_text = delta_text row \<rparr>
      else Inl IndexError)"

definition kpi_cards ::
  "(indicator \<Rightarrow> bool \<Rightarrow> string) \<Rightarrow> metric_row list \<Rightarrow> indicator list \<Rightarrow> py_error + kpi_card list"
where
  "kpi_cards to_html metrics indicator_figs =
     apply_col (kpi_card_at to_html metrics indicator_figs) [0..<length metrics]"

definition generate_kpi_cards_html ::
  "(indicator \<Rightarrow> bool \<Rightarrow> string) \<Rightarrow> metric_row list \<Rightarrow> indicator list \<Rightarrow> py_error + string"
where
  "generate_kpi_cards_html to_html metrics indicator_figs =
     (case kpi_cards to_html metrics indicator_figs of
        Inl e \<Rightarrow> Inl e
      | Inr cards \<Rightarrow> Inr (concat (map card_html cards)))"

subsection \<open>The stacked-area builder\<close>

text \<open>A date of the \<open>date\<close> column: year, month, day.\<close>

type_synonym date = "int \<times> nat \<times> nat"

text \<open>
  \<open>channel_acquisition.csv\<close>: the \<open>date\<close> column and the other columns, each with its name,
  in the order of the file.
\<close>

record channel_table =
  date_col :: "date list"
  columns :: "(string \<times> int list) list"

text \<open>
  A slice \<open>xs[start:stop:step]\<close> with a positive step: a negative bound counts from the end,
  and every bound is clipped to the list.
\<close>

definition slice_bound :: "int \<Rightarrow> int \<Rightarrow> nat" where
  "slice_bound n i = nat (if i < 0 then max 0 (i + n) else min i n)"

definition slice :: "'a list \<Rightarrow> int option \<Rightarrow> int option \<Rightarrow> nat \<Rightarrow> 'a list" where
  "slice xs start stop step =
     (let n = int (length xs);
          lo = (case start of None \<Rightarrow> 0 | Some i \<Rightarrow> slice_bound n i);
          hi = (case stop of None \<Rightarrow> length xs | Some i \<Rightarrow> slice_bound n i)
      in map (\<lambda>k. xs ! (lo + k * step)) [0..<(hi - lo + step - 1) div step])"

definition tick_dates :: "'a list \<Rightarrow> 'a list" where
  "tick_dates dates =
     (let N = 2 in
      if 2 * N < length dates then slice dates (Some (int N)) (Some (- int N)) 3
      else slice dates None None 3)"

definition month_abbr :: "string list" where
  "month_abbr = [''Jan'', ''Feb'', ''Mar'', ''Apr'', ''May'', ''Jun'',
                 ''Jul'', ''Aug'', ''Sep'', ''Oct'', ''Nov'', ''Dec'']"

text \<open>\<open>d.strftime("%b %Y")\<close>, for a month between 1 and 12.\<close>

definition strftime_b_Y :: "date \<Rightarrow> string" where
  "strftime_b_Y d = (case d of (y, m, _) \<Rightarrow> month_abbr ! (m - 1) @ '' '' @ zfill 4 (str_int y))"

record trace =
  trace_name :: string
  trace_y :: "int list"
  fillcolor :: string

record area_figure =
  traces :: "trace list"
  tickvals :: "date list"
  ticktext :: "string list"

definition create_channel_acquisition_chart :: "channel_table \<Rightarrow> area_figure" where
  "create_channel_acquisition_chart channel =
     (let ticks = tick_dates (date_col channel);
          chs = filter (\<lambda>c. fst c \<noteq> ''date'') (columns channel)
      in \<lparr> traces = map (\<lambda>(i, ch). \<lparr> trace_name = fst ch, trace_y = snd ch,
                                       fillcolor = palette ! (i mod length palette) \<rparr>)
                        (zip [0..<length chs] chs),
           tickvals = ticks,
           ticktext = map strftime_b_Y ticks \<rparr>)"

text \<open>
  The specification's words, for comparison: every third element of a list, from the first.
\<close>

fun every_third :: "'a list \<Rightarrow> 'a list" where
  "every_third (x # y # z # xs) = x # every_third xs"
| "every_third (x # xs) = [x]"
| "every_third [] = []"

subsection \<open>The ARR waterfall builder\<close>

text \<open>One row of \<open>arr_movement.csv\<close>; the column \<open>value\<close> is called \<open>arr_value\<close> here.\<close>

record arr_row =
  category :: string
  arr_measure :: string
  arr_value :: pyfloat

text \<open>The body of the formatting loop for one value.\<close>

definition format_value :: "pyfloat \<Rightarrow> string" where
  "format_value val =
     (if 1000000 \<le> \<bar>val\<bar>
      then ''$'' @ format_fixed 1 (fdiv val 1000000) @ ''M''
      else ''$'' @ format_fixed 0 (fdiv val 1000) @ ''K'')"

record waterfall =
  wf_x :: "string list"
  wf_y :: "pyfloat list"
  wf_measure :: "string list"
  wf_text :: "string list"

definition create_arr_waterfall :: "arr_row list \<Rightarrow> waterfall" where
  "create_arr_waterfall arr =
     (let formatted_values = map format_value (map arr_value arr)
      in \<lparr> wf_x = map category arr,
           wf_y = map arr_value arr,
           wf_measure = map arr_measure arr,
           wf_text = formatted_values \<rparr>)"

text \<open>Text that is a decimal number: digits, with or without a minus sign before them.\<close>

definition is_digit :: "char \<Rightarrow> bool" where
  "is_digit c = (c \<in> set ''0123456789'')"

definition is_digits :: "string \<Rightarrow> bool" where
  "is_digits s = (s \<noteq> [] \<and> list_all is_digit s)"

subsection \<open>The Sankey funnel builder\<close>

text \<open>
  One row of \<open>funnel_data.csv\<close>. The column \<open>value\<close> is called \<open>flow\<close> here.
  Labels are strings: a missing cell (pandas' NaN) is outside this model.
\<close>

record funnel_row =
  source :: string
  target :: string
  flow :: nat

text \<open>
  \<open>funnel[["source", "target"]].values.ravel()\<close>: the two columns as an n-by-2 array,
  flattened row by row.
\<close>

definition ravel :: "funnel_row list \<Rightarrow> string list" where
  "ravel funnel = concat (map (\<lambda>r. [source r, target r]) funnel)"

text \<open>
  \<open>pd.unique\<close>: one pass over the values with a table of what was seen, appending each new
  value to the result.
\<close>

fun unique_from :: "'a list \<Rightarrow> 'a list \<Rightarrow> 'a list" where
  "unique_from seen [] = seen"
| "unique_from seen (x # xs) =
     (if x \<in> set seen then unique_from seen xs else unique_from (seen @ [x]) xs)"

definition unique :: "'a list \<Rightarrow> 'a list" where
  "unique xs = unique_from [] xs"

text \<open>\<open>labels.index(x)\<close>: the first position holding \<open>x\<close>, or \<open>ValueError\<close>.\<close>

fun list_index :: "'a list \<Rightarrow> 'a \<Rightarrow> py_error + nat" where
  "list_index [] x = Inl ValueError"
| "list_index (y # ys) x =
     (if y = x then Inr 0
      else (case list_index ys x of Inl e \<Rightarrow> Inl e | Inr i \<Rightarrow> Inr (Suc i)))"

text \<open>What \<open>go.Sankey\<close> receives: the node labels and colours, and the three link columns.\<close>

record sankey =
  node_label :: "string list"
  node_color :: "string list"
  link_source :: "nat list"
  link_target :: "nat list"
  link_value :: "nat list"

definition node_colors :: "string list" where
  "node_colors = palette @ palette @ palette"

definition create_funnel_sankey :: "funnel_row list \<Rightarrow> py_error + sankey" where
  "create_funnel_sankey funnel =
     (let labels = unique (ravel funnel) in
      case apply_col (list_index labels) (map source funnel) of
        Inl e \<Rightarrow> Inl e
      | Inr source_indices \<Rightarrow>
          (case apply_col (list_index labels) (map target funnel) of
             Inl e \<Rightarrow> Inl e
           | Inr target_indices \<Rightarrow>
               Inr \<lparr> node_label = labels,
                     node_color = take (length labels) node_colors,
                     link_source = source_indices,
                     link_target = target_indices,
                     link_value = map flow funnel \<rparr>))"

text \<open>
  The specification's words, for comparison: the labels in first-seen order, each kept once.
\<close>

fun first_seen :: "'a list \<Rightarrow> 'a list" where
  "first_seen [] = []"
| "first_seen (x # xs) = x # filter (\<lambda>y. y \<noteq> x) (first_seen xs)"

subsection \<open>The cohort heatmap builder\<close>

text \<open>
  \<open>cohort_data.csv\<close>: the names of the columns after \<open>cohort\<close>, and for each row the cohort
  and its cells in those columns.
\<close>

record cohort_table =
  month_names :: "string list"
  cohort_rows :: "(string \<times> pyfloat list) list"

record heatmap =
  hm_z :: "pyfloat list list"
  hm_x :: "string list"
  hm_y :: "string list"
  zmin :: int
  zmax :: int

text \<open>\<open>cohort.columns[1:13]\<close> keeps at most twelve columns after the first.\<close>

definition create_cohort_heatmap :: "cohort_table \<Rightarrow> heatmap" where
  "create_cohort_heatmap cohort =
     \<lparr> hm_z = map (\<lambda>r. take 12 (snd r)) (cohort_rows cohort),
       hm_x = take 12 (month_names cohort),
       hm_y = map fst (cohort_rows cohort),
       zmin = 40,
       zmax = 100 \<rparr>"

subsection \<open>Loading the data and writing the page\<close>

text \<open>
  What \<open>pd.read_csv\<close> answers for each of the six paths: the table, or the exception it
  raises. This is the state of the \<open>data\<close> directory as the renderer sees it.
\<close>

record data_dir =
  metrics_csv :: "py_error + metric_row list"
  channel_csv :: "py_error + channel_table"
  arr_csv :: "py_error + arr_row list"
  funnel_csv :: "py_error + funnel_row list"
  cohort_csv :: "py_error + cohort_table"
  additional_csv :: "py_error + (date \<times> pyfloat list) list"

record tables =
  t_metrics :: "metric_row list"
  t_channel :: channel_table
  t_arr :: "arr_row list"
  t_funnel :: "funnel_row list"
  t_cohort :: cohort_table
  t_additional :: "(date \<times> pyfloat list) list"

text \<open>
  The page: the five places of the template that are computed. The fixed text of the
  template around them (the style sheet and the grid) is not modelled.
\<close>

record page =
  kpi_cards_html :: string
  area_html :: string
  waterfall_html :: string
  sankey_html :: string
  heatmap_html :: string

text \<open>
  What the renderer changes: the lines printed, whether the directory \<open>output\<close> exists, and
  the content of \<open>output/dashboard.html\<close> (\<open>None\<close> while the run has not written it).
\<close>

record world =
  stdout :: "string list"
  output_dir :: bool
  dashboard_file :: "page option"

definition print :: "string \<Rightarrow> world \<Rightarrow> world" where
  "print line w = w\<lparr>stdout := stdout w @ [line]\<rparr>"

text \<open>The \<open>except FileNotFoundError\<close> clause; any other exception passes through.\<close>

definition on_load_error :: "py_error \<Rightarrow> world \<Rightarrow> world \<times> (py_error + tables option)" where
  "on_load_error e w =
     (case e of
        FileNotFoundError msg \<Rightarrow>
          (print ''Please run data_gen.py first to generate the data files.''
             (print (''Error loading data: '' @ msg) w),
           Inr None)
      | _ \<Rightarrow> (w, Inl e))"

definition load_data :: "data_dir \<Rightarrow> world \<Rightarrow> world \<times> (py_error + tables option)" where
  "load_data d w =
     (case metrics_csv d of Inl e \<Rightarrow> on_load_error e w | Inr metrics \<Rightarrow>
      case channel_csv d of Inl e \<Rightarrow> on_load_error e w | Inr channel \<Rightarrow>
      case arr_csv d of Inl e \<Rightarrow> on_load_error e w | Inr arr \<Rightarrow>
      case funnel_csv d of Inl e \<Rightarrow> on_load_error e w | Inr funnel \<Rightarrow>
      case cohort_csv d of Inl e \<Rightarrow> on_load_error e w | Inr cohort \<Rightarrow>
      case additional_csv d of Inl e \<Rightarrow> on_load_error e w | Inr additional \<Rightarrow>
        (w, Inr (Some \<lparr> t_metrics = metrics, t_channel = channel, t_arr = arr,
                        t_funnel = funnel, t_cohort = cohort, t_additional = additional \<rparr>)))"

definition ensure_output_directory :: "world \<Rightarrow> world" where
  "ensure_output_directory w = (if \<not> output_dir w then w\<lparr>output_dir := True\<rparr> else w)"

text \<open>plotly's \<open>to_html\<close> for each kind of figure, taken as given.\<close>

record plotly =
  indicator_to_html :: "indicator \<Rightarrow> bool \<Rightarrow> string"
  area_to_html :: "area_figure \<Rightarrow> string"
  waterfall_to_html :: "waterfall \<Rightarrow> string"
  sankey_to_html :: "sankey \<Rightarrow> string"
  heatmap_to_html :: "heatmap \<Rightarrow> string"

definition create_dashboard_html :: "plotly \<Rightarrow> tables \<Rightarrow> world \<Rightarrow> world \<times> (py_error + page)" where
  "create_dashboard_html pl t w =
     (let indicator_figs = create_kpi_indicators (t_metrics t);
          area_fig = create_channel_acquisition_chart (t_channel t);
          waterfall_fig = create_arr_waterfall (t_arr t)
      in case create_funnel_sankey (t_funnel t) of
           Inl e \<Rightarrow> (w, Inl e)
         | Inr sankey_fig \<Rightarrow>
             (let heatmap_fig = create_cohort_heatmap (t_cohort t)
              in case generate_kpi_cards_html (indicator_to_html pl) (t_metrics t) indicator_figs of
                   Inl e \<Rightarrow> (w, Inl e)
                 | Inr cards \<Rightarrow>
                     (let dashboard_html =
                            \<lparr> kpi_cards_html = cards,
                              area_html = area_to_html pl area_fig,
                              waterfall_html = waterfall_to_html pl waterfall_fig,
                              sankey_html = sankey_to_html pl sankey_fig,
                              heatmap_html = heatmap_to_html pl heatmap_fig \<rparr>
                      in (w\<lparr>dashboard_file := Some dashboard_html\<rparr>, Inr dashboard_html))))"

text \<open>
  \<open>main\<close>. The result \<open>Inr ()\<close> is a normal return; \<open>Inl e\<close> is an exception nobody caught,
  which the interpreter reports with a stack trace.
\<close>

definition main :: "plotly \<Rightarrow> data_dir \<Rightarrow> world \<Rightarrow> world \<times> (py_error + unit)" where
  "main pl d w0 =
     (let w1 = print ''Creating SaaS Business Dashboard...'' w0;
          (w2, data) = load_data d w1
      in case data of
           Inl e \<Rightarrow> (w2, Inl e)
         | Inr None \<Rightarrow> (w2, Inr ())
         | Inr (Some t) \<Rightarrow>
             (let w3 = ensure_output_directory w2;
                  (w4, r) = create_dashboard_html pl t w3
              in case r of
                   Inl e \<Rightarrow> (w4, Inl e)
                 | Inr dashboard_html \<Rightarrow>
                     (print ''Open 'output/dashboard.html' in your web browser to view the dashboard.''
                        (print ''Dashboard created successfully!'' w4),
                      Inr ())))"

definition fresh_world :: world where
  "fresh_world = \<lparr> stdout = [], output_dir = False, dashboard_file = None \<rparr>"

section \<open>data_gen.py\<close>

subsection \<open>numpy on arrays of floats\<close>

text \<open>\<open>np.pi\<close>, the double nearest to pi.\<close>

definition np_pi :: pyfloat where
  "np_pi = 7074237752028440 / 2 ^ 51"

text \<open>
  \<open>np.linspace(start, stop, num)\<close> for \<open>1 < num\<close>: the points \<open>j * step + start\<close>, the last one replaced by
  \<open>stop\<close> itself.
\<close>

definition linspace :: "pyfloat \<Rightarrow> pyfloat \<Rightarrow> nat \<Rightarrow> pyfloat list" where
  "linspace start stop num =
     (let step = fdiv (fsub stop start) (of_nat (num - 1))
      in map (\<lambda>j. if 1 < num \<and> j = num - 1 then stop
                   else fadd (fmul (of_nat j) step) start) [0..<num])"

text \<open>\<open>np.clip(x, lo, hi)\<close> on one element; \<open>None\<close> is the bound that is not given.\<close>

definition clip :: "pyfloat \<Rightarrow> pyfloat option \<Rightarrow> pyfloat option \<Rightarrow> pyfloat" where
  "clip x lo hi =
     (let y = (case lo of None \<Rightarrow> x | Some l \<Rightarrow> max x l)
      in case hi of None \<Rightarrow> y | Some h \<Rightarrow> min y h)"

text \<open>\<open>astype(int)\<close> on one element: the fraction is dropped (within the 64-bit range).\<close>

definition astype_int :: "pyfloat \<Rightarrow> int" where
  "astype_int x = (if 0 \<le> x then \<lfloor>x\<rfloor> else \<lceil>x\<rceil>)"

text \<open>\<open>np.cumsum\<close>: the running sums, each the float sum of the one before and the next element.\<close>

fun cumsum_from :: "pyfloat \<Rightarrow> pyfloat list \<Rightarrow> pyfloat list" where
  "cumsum_from acc [] = []"
| "cumsum_from acc (x # xs) = fadd acc x # cumsum_from (fadd acc x) xs"

definition cumsum :: "pyfloat list \<Rightarrow> pyfloat list" where
  "cumsum xs = (case xs of [] \<Rightarrow> [] | x # rest \<Rightarrow> x # cumsum_from x rest)"

subsection \<open>The KPI and funnel tables\<close>

text \<open>
  The table \<open>generate_metrics\<close> writes, as the renderer reads it back: an empty prefix is an
  empty cell, and both numeric columns hold floats.
\<close>

definition sample_metrics :: "metric_row list" where
  "sample_metrics =
     [\<lparr>metric = ''Monthly Recurring Revenue'', amount = PyFloat (float_literal (32/10)),
        delta = PyFloat (float_literal (42/10)), prefix = Some ''$'', suffix = Some ''M''\<rparr>,
      \<lparr>metric = ''CAC Payback Period'', amount = PyFloat (float_literal (142/10)),
        delta = PyFloat (float_literal (- 9/10)), prefix = None, suffix = Some ''mo''\<rparr>,
      \<lparr>metric = ''Net Revenue Retention'', amount = PyFloat (float_literal 112),
        delta = PyFloat (float_literal (45/10)), prefix = None, suffix = Some ''%''\<rparr>,
      \<lparr>metric = ''Monthly Churn Rate'', amount = PyFloat (float_literal (42/10)),
        delta = PyFloat (float_literal (- 6/10)), prefix = None, suffix = Some ''%''\<rparr>,
      \<lparr>metric = ''LTV:CAC Ratio'', amount = PyFloat (float_literal (48/10)),
        delta = PyFloat (float_literal (5/10)), prefix = None, suffix = Some ''x''\<rparr>]"

text \<open>The funnel table \<open>generate_funnel_data\<close> writes.\<close>

definition sample_funnel :: "funnel_row list" where
  "sample_funnel =
     [\<lparr>source = ''Organic Search'', target = ''MQL'', flow = 5000\<rparr>,
      \<lparr>source = ''Paid Search'', target = ''MQL'', flow = 4000\<rparr>,
      \<lparr>source = ''Content Marketing'', target = ''MQL'', flow = 3000\<rparr>,
      \<lparr>source = ''Social Media'', target = ''MQL'', flow = 3500\<rparr>,
      \<lparr>source = ''Direct'', target = ''MQL'', flow = 4500\<rparr>,
      \<lparr>source = ''Email Marketing'', target = ''MQL'', flow = 3200\<rparr>,
      \<lparr>source = ''Referrals'', target = ''MQL'', flow = 2800\<rparr>,
      \<lparr>source = ''MQL'', target = ''SQL'', flow = 6000\<rparr>,
      \<lparr>source = ''MQL'', target = ''Unqualified'', flow = 2500\<rparr>,
      \<lparr>source = ''SQL'', target = ''Opportunity'', flow = 1800\<rparr>,
      \<lparr>source = ''SQL'', target = ''No Opportunity'', flow = 2000\<rparr>,
      \<lparr>source = ''SQL'', target = ''Lost'', flow = 1500\<rparr>,
      \<lparr>source = ''SQL'', target = ''Won'', flow = 700\<rparr>]"

subsection \<open>The channel-acquisition table\<close>

text \<open>
  \<open>pd.date_range(start, end, freq="MS")\<close> for two first days of a month: every month start
  from the first to the last.
\<close>

definition date_range_ms :: "int \<times> nat \<Rightarrow> int \<times> nat \<Rightarrow> date list" where
  "date_range_ms start end =
     (case (start, end) of
        ((y1, m1), (y2, m2)) \<Rightarrow>
          map (\<lambda>k. (y1 + int ((m1 - 1 + k) div 12), (m1 - 1 + k) mod 12 + 1, 1))
              [0..<nat ((y2 - y1) * 12 + int m2 - int m1 + 1)])"

definition channels :: "string list" where
  "channels = [''Direct'', ''Referrals'', ''Email Marketing'', ''Content Marketing'',
               ''Social Media'', ''Paid Search'', ''Organic Search'']"

text \<open>
  The body of the loop for channel number \<open>i\<close>, at date number \<open>j\<close> of \<open>n\<close>. \<open>npsin\<close> is
  \<open>np.sin\<close> on a double, and \<open>noise i j\<close> is the \<open>j\<close>-th number of the \<open>i\<close>-th call of
  \<open>np.random.normal\<close>; both are taken as given.
\<close>

definition channel_value ::
  "(pyfloat \<Rightarrow> pyfloat) \<Rightarrow> (nat \<Rightarrow> nat \<Rightarrow> pyfloat) \<Rightarrow> nat \<Rightarrow> nat \<Rightarrow> string \<Rightarrow> nat \<Rightarrow> int"
where
  "channel_value npsin noise n i channel j =
     (let base = linspace 200 800 n;
          seasonal = fmul 50 (npsin (fadd (linspace 0 (fmul 4 np_pi) n ! j) (of_nat i)));
          trend = fmul (base ! j)
                    (fadd 1 (fmul (float_literal (1/10))
                      (npsin (fadd (linspace 0 (fmul 3 np_pi) n ! j) (of_nat i)))));
          trend' = (if channel = ''Organic Search'' then fmul trend (float_literal (13/10))
                    else if channel = ''Paid Search'' then fmul trend (float_literal (11/10))
                    else if channel = ''Social Media'' then fmul trend (float_literal (8/10))
                    else trend)
      in astype_int (clip (fadd (fadd trend' seasonal) (noise i j)) (Some 50) None))"

definition generate_channel_acquisition ::
  "(pyfloat \<Rightarrow> pyfloat) \<Rightarrow> (nat \<Rightarrow> nat \<Rightarrow> pyfloat) \<Rightarrow> channel_table"
where
  "generate_channel_acquisition npsin noise =
     (let dates = date_range_ms (2022, 3) (2024, 11);
          n = length dates
      in \<lparr> date_col = dates,
           columns = map (\<lambda>(i, channel). (channel, map (channel_value npsin noise n i channel) [0..<n]))
                         (zip [0..<length channels] channels) \<rparr>)"

subsection \<open>The ARR movement table\<close>

text \<open>
  \<open>u1\<close> to \<open>u4\<close> are the four numbers \<open>np.random.uniform\<close> returns, in the order of the calls.
\<close>

definition generate_arr_movement ::
  "pyfloat \<Rightarrow> pyfloat \<Rightarrow> pyfloat \<Rightarrow> pyfloat \<Rightarrow> arr_row list"
where
  "generate_arr_movement u1 u2 u3 u4 =
     (let starting_arr = 28000000;
          new_business = u1;
          expansion = u2;
          contraction = - u3;
          churn = - u4;
          ending_arr = fadd (fadd (fadd (fadd starting_arr new_business) expansion) contraction) churn
      in [\<lparr>category = ''Starting ARR'', arr_measure = ''absolute'', arr_value = starting_arr\<rparr>,
          \<lparr>category = ''New Business'', arr_measure = ''relative'', arr_value = new_business\<rparr>,
          \<lparr>category = ''Expansion'', arr_measure = ''relative'', arr_value = expansion\<rparr>,
          \<lparr>category = ''Contraction'', arr_measure = ''relative'', arr_value = contraction\<rparr>,
          \<lparr>category = ''Churn'', arr_measure = ''relative'', arr_value = churn\<rparr>,
          \<lparr>category = ''Ending ARR'', arr_measure = ''total'', arr_value = ending_arr\<rparr>])"

text \<open>
  The ranges \<open>np.random.uniform(low, high)\<close> draws from in \<open>generate_arr_movement\<close>.
\<close>

definition arr_draws :: "pyfloat \<Rightarrow> pyfloat \<Rightarrow> pyfloat \<Rightarrow> pyfloat \<Rightarrow> bool" where
  "arr_draws u1 u2 u3 u4 =
     (1500000 \<le> u1 \<and> u1 \<le> 2500000 \<and> 800000 \<le> u2 \<and> u2 \<le> 1500000 \<and>
      200000 \<le> u3 \<and> u3 \<le> 600000 \<and> 100000 \<le> u4 \<and> u4 \<le> 500000)"

subsection \<open>The cohort table\<close>

text \<open>The retention row of cohort number \<open>cohort_idx\<close>, from its declines.\<close>

definition cohort_retention ::
  "(pyfloat \<Rightarrow> pyfloat) \<Rightarrow> nat \<Rightarrow> nat \<Rightarrow> pyfloat list \<Rightarrow> pyfloat list"
where
  "cohort_retention npsin months cohort_idx declines =
     (let base_retention = 100;
          retention = map (\<lambda>c. fsub base_retention c) (cumsum declines);
          retention' = map (\<lambda>r. clip r (Some 45) (Some 100)) retention;
          seasonal_adjustment =
            map (\<lambda>a. fmul 2 (npsin (fadd a (of_nat cohort_idx)))) (linspace 0 (fmul 2 np_pi) months);
          retention'' = map (\<lambda>(r, s). fadd r s) (zip retention' seasonal_adjustment)
      in map (\<lambda>r. clip r (Some 45) (Some 100)) retention'')"

text \<open>
  \<open>early c\<close> and \<open>later c\<close> are the arrays the two calls of \<open>np.random.uniform\<close> return for
  cohort number \<open>c\<close>: six numbers, and \<open>months - 6\<close> numbers. The second call raises
  \<open>ValueError\<close> for a negative size.
\<close>

definition generate_cohort_data ::
  "(pyfloat \<Rightarrow> pyfloat) \<Rightarrow> (nat \<Rightarrow> nat \<Rightarrow> pyfloat) \<Rightarrow> (nat \<Rightarrow> nat \<Rightarrow> pyfloat) \<Rightarrow> nat \<Rightarrow> nat
     \<Rightarrow> py_error + cohort_table"
where
  "generate_cohort_data npsin early later num_cohorts months =
     (let cohorts = map (\<lambda>m. ''2023-'' @ zfill 2 (str_int (int m))) [1..<num_cohorts + 1]
      in if 0 < num_cohorts \<and> months < 6 then Inl ValueError
         else Inr \<lparr> month_names = map (\<lambda>i. ''M'' @ str_int (int i)) [0..<months],
                    cohort_rows =
                      map (\<lambda>(cohort_idx, cohort).
                             (cohort,
                              cohort_retention npsin months cohort_idx
                                (map (early cohort_idx) [0..<6] @
                                 map (later cohort_idx) [0..<months - 6])))
                          (zip [0..<length cohorts] cohorts) \<rparr>)"

section \<open>The specification's words, and sample inputs\<close>

text \<open>
  The waterfall text as the specification words it: millions for an amount of at least
  1,000,000, thousands otherwise.
\<close>

definition spec_format_value :: "pyfloat \<Rightarrow> string" where
  "spec_format_value val =
     (if 1000000 \<le> val
      then ''$'' @ format_fixed 1 (fdiv val 1000000) @ ''M''
      else ''$'' @ format_fixed 0 (fdiv val 1000) @ ''K'')"

text \<open>
  The delta text as the specification words it: the percent suffix is the special case, every
  other row is the raw number between prefix and suffix.
\<close>

definition spec_delta_text :: "metric_row \<Rightarrow> string" where
  "spec_delta_text row =
     (if suffix row = Some ''%''
      then delta_symbol row @ '' '' @ number_fixed 1 (delta row) @ ''%''
      else delta_symbol row @ '' '' @ (case prefix row of Some p \<Rightarrow> p | None \<Rightarrow> []) @
           number_str (delta row) @ (case suffix row of Some s \<Rightarrow> s | None \<Rightarrow> []))"

text \<open>
  The colour the style sheet of the page gives to the two classes of the delta line
  (\<open>.positive\<close> and \<open>.negative\<close>).
\<close>

definition style_color :: "string \<Rightarrow> string option" where
  "style_color cls =
     (if cls = ''positive'' then Some ''#27ae60''
      else if cls = ''negative'' then Some ''#e74c3c''
      else None)"

text \<open>
  The arrows the specification speaks of, in UTF-8: U+2197 and U+2198 for the cards, U+2191
  and U+2193 for the indicator builder.
\<close>

definition arrow_up_right :: string where
  "arrow_up_right = [CHR 0xE2, CHR 0x86, CHR 0x97]"

definition arrow_down_right :: string where
  "arrow_down_right = [CHR 0xE2, CHR 0x86, CHR 0x98]"

definition arrow_up :: string where
  "arrow_up = [CHR 0xE2, CHR 0x86, CHR 0x91]"

definition arrow_down :: string where
  "arrow_down = [CHR 0xE2, CHR 0x86, CHR 0x93]"

text \<open>Whether a text starts with another, and how many times a text occurs in another.\<close>

fun starts_with :: "string \<Rightarrow> string \<Rightarrow> bool" where
  "starts_with [] s = True"
| "starts_with (p # ps) [] = False"
| "starts_with (p # ps) (c # cs) = (if p = c then starts_with ps cs else False)"

fun count_sub :: "string \<Rightarrow> string \<Rightarrow> nat" where
  "count_sub pat [] = 0"
| "count_sub pat (c # cs) = (if starts_with pat (c # cs) then 1 else 0) + count_sub pat cs"

text \<open>The opening tag of a KPI card.\<close>

definition card_tag :: string where
  \<open>card_tag = ''<div class="card kpi-card"''\<close>

text \<open>A metric table whose two numeric columns hold integers only.\<close>

definition integer_metrics :: "metric_row list" where
  "integer_metrics =
     [\<lparr>metric = ''Monthly Recurring Revenue'', amount = PyInt 3, delta = PyInt 4,
        prefix = Some ''$'', suffix = Some ''M''\<rparr>,
      \<lparr>metric = ''CAC Payback Period'', amount = PyInt 14, delta = PyInt (- 1),
        prefix = None, suffix = Some ''mo''\<rparr>,
      \<lparr>metric = ''Net Revenue Retention'', amount = PyInt 112, delta = PyInt 0,
        prefix = None, suffix = Some ''%''\<rparr>]"

text \<open>
  Every read either loads the table or finds the file missing: no file is there but
  unreadable.
\<close>

definition loads_or_missing :: "py_error option \<Rightarrow> bool" where
  "loads_or_missing e =
     (case e of None \<Rightarrow> True | Some (FileNotFoundError _) \<Rightarrow> True | Some _ \<Rightarrow> False)"

text \<open>
  The exception of the first read that fails, in the order \<open>load_data\<close> reads the files, and
  whether some file is missing.
\<close>

definition read_error :: "py_error + 'a \<Rightarrow> py_error option" where
  "read_error r = (case r of Inl e \<Rightarrow> Some e | Inr _ \<Rightarrow> None)"

definition read_errors :: "data_dir \<Rightarrow> py_error option list" where
  "read_errors d =
     [read_error (metrics_csv d), read_error (channel_csv d), read_error (arr_csv d),
      read_error (funnel_csv d), read_error (cohort_csv d), read_error (additional_csv d)]"

definition first_error :: "data_dir \<Rightarrow> py_error option" where
  "first_error d = (case filter (\<lambda>e. e \<noteq> None) (read_errors d) of [] \<Rightarrow> None | e # _ \<Rightarrow> e)"

definition any_missing :: "data_dir \<Rightarrow> bool" where
  "any_missing d = (\<exists>msg. Some (FileNotFoundError msg) \<in> set (read_errors d))"

text \<open>The line that tells the user to run the generator.\<close>

definition run_generator_line :: string where
  "run_generator_line = ''Please run data_gen.py first to generate the data files.''"

text \<open>The text of the exception for a path that does not exist.\<close>

definition no_such_file :: "string \<Rightarrow> string" where
  "no_such_file path =
     ''[Errno 2] No such file or directory: '' @ [CHR 0x27] @ path @ [CHR 0x27]"

text \<open>A rendering library that produces no text, and two states of the data directory.\<close>

definition no_plotly :: plotly where
  "no_plotly =
     \<lparr> indicator_to_html = (\<lambda>_ _. []), area_to_html = (\<lambda>_. []), waterfall_to_html = (\<lambda>_. []),
       sankey_to_html = (\<lambda>_. []), heatmap_to_html = (\<lambda>_. []) \<rparr>"

definition empty_channel :: channel_table where
  "empty_channel = \<lparr> date_col = [], columns = [] \<rparr>"

definition empty_cohort :: cohort_table where
  "empty_cohort = \<lparr> month_names = [], cohort_rows = [] \<rparr>"

text \<open>Only \<open>cohort_data.csv\<close> is missing.\<close>

definition cohort_missing_dir :: data_dir where
  "cohort_missing_dir =
     \<lparr> metrics_csv = Inr sample_metrics, channel_csv = Inr empty_channel, arr_csv = Inr [],
       funnel_csv = Inr sample_funnel,
       cohort_csv = Inl (FileNotFoundError (no_such_file ''data/cohort_data.csv'')),
       additional_csv = Inr [] \<rparr>"

text \<open>
  \<open>metrics.csv\<close> is there but empty, so that pandas raises \<open>EmptyDataError\<close>, and
  \<open>channel_acquisition.csv\<close> is missing as well.
\<close>

definition empty_metrics_dir :: data_dir where
  "empty_metrics_dir =
     \<lparr> metrics_csv = Inl (OtherError ''EmptyDataError''),
       channel_csv = Inl (FileNotFoundError (no_such_file ''data/channel_acquisition.csv'')),
       arr_csv = Inr [], funnel_csv = Inr [], cohort_csv = Inr empty_cohort,
       additional_csv = Inr [] \<rparr>"

section \<open>Verified properties\<close>

subsection \<open>The Sankey funnel builder\<close>

lemma unique_from_set: "set (unique_from seen xs) = set seen \<union> set xs"
  by (induction xs arbitrary: seen) auto

lemma unique_from_distinct: "distinct seen \<Longrightarrow> distinct (unique_from seen xs)"
  by (induction xs arbitrary: seen) auto

lemma unique_from_first_seen:
  "unique_from seen xs = seen @ filter (\<lambda>y. y \<notin> set seen) (first_seen xs)"
proof (induction xs arbitrary: seen)
  case Nil
  show ?case by simp
next
  case (Cons x xs)
  show ?case
  proof (cases "x \<in> set seen")
    case True
    have "filter (\<lambda>y. y \<noteq> x \<and> y \<notin> set seen) (first_seen xs)
        = filter (\<lambda>y. y \<notin> set seen) (first_seen xs)"
      using True by (intro filter_cong) auto
    then show ?thesis using True Cons.IH [of seen] by simp
  next
    case False
    have "filter (\<lambda>y. y \<noteq> x \<and> y \<notin> set seen) (first_seen xs)
        = filter (\<lambda>y. y \<notin> set seen \<and> y \<noteq> x) (first_seen xs)"
      by (intro filter_cong) auto
    then show ?thesis using False Cons.IH [of "seen @ [x]"] by simp
  qed
qed

lemma unique_first_seen: "unique xs = first_seen xs"
  by (simp add: unique_def unique_from_first_seen)

lemma unique_set: "set (unique xs) = set xs"
  by (simp add: unique_def unique_from_set)

lemma unique_distinct: "distinct (unique xs)"
  by (simp add: unique_def unique_from_distinct)

lemma list_index_found:
  "x \<in> set ys \<Longrightarrow> \<exists>i. list_index ys x = Inr i \<and> i < length ys \<and> ys ! i = x"
  by (induction ys) auto

lemma apply_col_index:
  "set xs \<subseteq> set ys \<Longrightarrow>
   \<exists>is. apply_col (list_index ys) xs = Inr is \<and> length is = length xs \<and>
        (\<forall>k < length xs. is ! k < length ys \<and> ys ! (is ! k) = xs ! k)"
proof (induction xs)
  case Nil
  show ?case by simp
next
  case (Cons x xs)
  from Cons.prems obtain i where i: "list_index ys x = Inr i" "i < length ys" "ys ! i = x"
    using list_index_found [of x ys] by auto
  from Cons obtain "is" where "is": "apply_col (list_index ys) xs = Inr is"
      "length is = length xs" "\<forall>k < length xs. is ! k < length ys \<and> ys ! (is ! k) = xs ! k"
    by auto
  have "\<forall>k < length (x # xs). (i # is) ! k < length ys \<and> ys ! ((i # is) ! k) = (x # xs) ! k"
  proof (intro allI impI)
    fix k assume "k < length (x # xs)"
    then show "(i # is) ! k < length ys \<and> ys ! ((i # is) ! k) = (x # xs) ! k"
      using i "is" by (cases k) auto
  qed
  then show ?case using i "is" by simp
qed

lemma ravel_set: "set (ravel funnel) = source ` set funnel \<union> target ` set funnel"
  by (induction funnel) (auto simp: ravel_def)

text \<open>
  C1. For every funnel table the Sankey builder returns a figure (no exception). Its node
  labels are the source and target labels read row by row, each kept once at its first
  appearance; they are pairwise different and are exactly the labels that occur as a source
  or a target. Every edge's source index and target index is a valid position whose label is
  the edge's own source or target string, and a label has one position only, however often
  it occurs.
\<close>

theorem create_funnel_sankey_indices:
  "\<exists>fig. create_funnel_sankey funnel = Inr fig \<and>
     node_label fig = first_seen (ravel funnel) \<and>
     distinct (node_label fig) \<and>
     set (node_label fig) = source ` set funnel \<union> target ` set funnel \<and>
     length (link_source fig) = length funnel \<and>
     length (link_target fig) = length funnel \<and>
     (\<forall>k < length funnel.
        link_source fig ! k < length (node_label fig) \<and>
        node_label fig ! (link_source fig ! k) = source (funnel ! k) \<and>
        link_target fig ! k < length (node_label fig) \<and>
        node_label fig ! (link_target fig ! k) = target (funnel ! k)) \<and>
     (\<forall>i < length (node_label fig). \<forall>j < length (node_label fig).
        node_label fig ! i = node_label fig ! j \<longrightarrow> i = j)"
proof -
  let ?labels = "unique (ravel funnel)"
  have src: "set (map source funnel) \<subseteq> set ?labels"
    by (auto simp: unique_set ravel_set)
  have tgt: "set (map target funnel) \<subseteq> set ?labels"
    by (auto simp: unique_set ravel_set)
  from apply_col_index [OF src] obtain ss where ss:
    "apply_col (list_index ?labels) (map source funnel) = Inr ss"
    "length ss = length funnel"
    "\<forall>k < length funnel. ss ! k < length ?labels \<and> ?labels ! (ss ! k) = source (funnel ! k)"
    by auto
  from apply_col_index [OF tgt] obtain ts where ts:
    "apply_col (list_index ?labels) (map target funnel) = Inr ts"
    "length ts = length funnel"
    "\<forall>k < length funnel. ts ! k < length ?labels \<and> ?labels ! (ts ! k) = target (funnel ! k)"
    by auto
  let ?fig = "\<lparr> node_label = ?labels, node_color = take (length ?labels) node_colors,
               link_source = ss, link_target = ts, link_value = map flow funnel \<rparr>"
  have run: "create_funnel_sankey funnel = Inr ?fig"
    by (simp add: create_funnel_sankey_def Let_def ss(1) ts(1))
  have one: "\<forall>i < length ?labels. \<forall>j < length ?labels. ?labels ! i = ?labels ! j \<longrightarrow> i = j"
    using unique_distinct [of "ravel funnel"] by (simp add: nth_eq_iff_index_eq)
  show ?thesis
    apply (rule exI [of _ ?fig])
    using run ss ts one unique_distinct [of "ravel funnel"]
    by (simp add: unique_first_seen [symmetric] unique_set ravel_set)
qed

text \<open>
  On the generator's funnel table, row 0 has the target MQL and row 7 has the source MQL:
  both resolve to the same node.
\<close>

theorem create_funnel_sankey_indices_witness:
  "\<exists>fig. create_funnel_sankey sample_funnel = Inr fig \<and>
     node_label fig ! (link_target fig ! 0) = ''MQL'' \<and>
     node_label fig ! (link_source fig ! 7) = ''MQL'' \<and>
     link_target fig ! 0 = link_source fig ! 7"
proof -
  have len: "length sample_funnel = 13"
    by (simp add: sample_funnel_def)
  have t0: "target (sample_funnel ! 0) = ''MQL''"
    by (simp add: sample_funnel_def)
  have s7: "source (sample_funnel ! 7) = ''MQL''"
    by (simp add: sample_funnel_def)
  from create_funnel_sankey_indices [of sample_funnel] obtain fig where
    run: "create_funnel_sankey sample_funnel = Inr fig" and
    idx: "\<forall>k < length sample_funnel.
        link_source fig ! k < length (node_label fig) \<and>
        node_label fig ! (link_source fig ! k) = source (sample_funnel ! k) \<and>
        link_target fig ! k < length (node_label fig) \<and>
        node_label fig ! (link_target fig ! k) = target (sample_funnel ! k)" and
    one: "\<forall>i < length (node_label fig). \<forall>j < length (node_label fig).
        node_label fig ! i = node_label fig ! j \<longrightarrow> i = j"
    by blast
  from idx len have a: "link_target fig ! 0 < length (node_label fig)"
      "node_label fig ! (link_target fig ! 0) = ''MQL''"
    using t0 by auto
  from idx len have b: "link_source fig ! 7 < length (node_label fig)"
      "node_label fig ! (link_source fig ! 7) = ''MQL''"
    using s7 by auto
  from one a b have "link_target fig ! 0 = link_source fig ! 7"
    by simp
  with run a b show ?thesis by blast
qed

subsection \<open>The stacked-area builder\<close>

lemma every_third_nth:
  "every_third ys = map (\<lambda>k. ys ! (k * 3)) [0..<(length ys + 2) div 3]"
proof (induction ys rule: every_third.induct)
  case (1 x y z xs)
  let ?m = "(length xs + 2) div 3"
  have len: "(length (x # y # z # xs) + 2) div 3 = Suc ?m"
    by simp
  have upt: "[0..<Suc ?m] = 0 # map Suc [0..<?m]"
    by (simp only: map_Suc_upt upt_conv_Cons [OF zero_less_Suc])
  have "map (\<lambda>k. (x # y # z # xs) ! (k * 3)) [0..<Suc ?m]
      = x # map (\<lambda>k. xs ! (k * 3)) [0..<?m]"
    unfolding upt by (simp add: comp_def)
  then show ?case
    unfolding len using 1 by simp
qed simp_all

lemma slice_every_third:
  assumes "hi \<le> length xs"
  shows "map (\<lambda>k. xs ! (lo + k * 3)) [0..<(hi - lo + 2) div 3]
       = every_third (drop lo (take hi xs))"
proof -
  have len: "length (drop lo (take hi xs)) = hi - lo"
    using assms by simp
  have "map (\<lambda>k. xs ! (lo + k * 3)) [0..<(hi - lo + 2) div 3]
      = map (\<lambda>k. drop lo (take hi xs) ! (k * 3)) [0..<(hi - lo + 2) div 3]"
  proof (rule map_cong [OF refl])
    fix k assume "k \<in> set [0..<(hi - lo + 2) div 3]"
    then have "k * 3 < hi - lo" by auto
    then show "xs ! (lo + k * 3) = drop lo (take hi xs) ! (k * 3)"
      using assms by simp
  qed
  also have "\<dots> = every_third (drop lo (take hi xs))"
    by (simp only: every_third_nth len)
  finally show ?thesis .
qed

lemma slice_bound_le: "slice_bound (int (length xs)) i \<le> length xs"
  unfolding slice_bound_def by (cases "i < 0") (auto simp: max_def min_def)

lemma slice_step_3:
  "slice xs start stop 3 =
     every_third
       (drop (case start of None \<Rightarrow> 0 | Some i \<Rightarrow> slice_bound (int (length xs)) i)
          (take (case stop of None \<Rightarrow> length xs | Some i \<Rightarrow> slice_bound (int (length xs)) i) xs))"
proof -
  let ?lo = "case start of None \<Rightarrow> 0 | Some i \<Rightarrow> slice_bound (int (length xs)) i"
  let ?hi = "case stop of None \<Rightarrow> length xs | Some i \<Rightarrow> slice_bound (int (length xs)) i"
  have hi: "?hi \<le> length xs"
    by (cases stop) (simp_all add: slice_bound_le)
  have "?hi - ?lo + 3 - 1 = ?hi - ?lo + 2"
    by simp
  then have "slice xs start stop 3 = map (\<lambda>k. xs ! (?lo + k * 3)) [0..<(?hi - ?lo + 2) div 3]"
    by (simp only: slice_def Let_def)
  also have "\<dots> = every_third (drop ?lo (take ?hi xs))"
    by (rule slice_every_third [OF hi])
  finally show ?thesis .
qed

text \<open>
  C6. For every channel table, the tick values of the stacked-area chart are: with more than
  four dates, every third of the dates that remain when the first two and the last two are
  dropped; with four dates or fewer, every third of all the dates. The tick labels are these
  dates, each printed as month and year. (The first equation says the same of the slicing
  step alone, for any list.)
\<close>

theorem tick_dates_strided:
  "tick_dates dates =
     (if 4 < length dates then every_third (drop 2 (take (length dates - 2) dates))
      else every_third dates) \<and>
   tickvals (create_channel_acquisition_chart channel) =
     (if 4 < length (date_col channel)
      then every_third (drop 2 (take (length (date_col channel) - 2) (date_col channel)))
      else every_third (date_col channel)) \<and>
   ticktext (create_channel_acquisition_chart channel) =
     map strftime_b_Y
       (if 4 < length (date_col channel)
        then every_third (drop 2 (take (length (date_col channel) - 2) (date_col channel)))
        else every_third (date_col channel))"
proof -
  have strided: "tick_dates ds =
     (if 4 < length ds then every_third (drop 2 (take (length ds - 2) ds)) else every_third ds)"
    for ds :: "'c list"
  proof (cases "4 < length ds")
    case True
    then have lo: "slice_bound (int (length ds)) 2 = 2"
      and hi: "slice_bound (int (length ds)) (- 2) = length ds - 2"
      by (simp_all add: slice_bound_def nat_diff_distrib)
    from True have "tick_dates ds = slice ds (Some 2) (Some (- 2)) 3"
      by (simp add: tick_dates_def Let_def)
    then show ?thesis
      using True by (simp add: slice_step_3 lo hi)
  next
    case False
    then have "tick_dates ds = slice ds None None 3"
      by (simp add: tick_dates_def Let_def)
    then show ?thesis
      using False by (simp add: slice_step_3)
  qed
  have vals: "tickvals (create_channel_acquisition_chart channel) = tick_dates (date_col channel)"
    by (simp add: create_channel_acquisition_chart_def Let_def)
  have labels: "ticktext (create_channel_acquisition_chart channel)
      = map strftime_b_Y (tick_dates (date_col channel))"
    by (simp add: create_channel_acquisition_chart_def Let_def)
  show ?thesis
    unfolding vals labels
    using strided [of dates] strided [of "date_col channel"] by simp
qed

subsection \<open>The KPI indicators and cards\<close>

lemma kpi_indicator_delta: "kpi_indicator (row\<lparr>delta := d\<rparr>) = kpi_indicator row"
  by (simp add: kpi_indicator_def Let_def)

text \<open>
  C10. Two metric tables that agree on every column except \<open>delta\<close> (they are the same table
  once every delta is overwritten with one value) give the same list of indicator figures.
\<close>

theorem create_kpi_indicators_ignores_delta:
  assumes "map (\<lambda>r. r\<lparr>delta := PyInt 0\<rparr>) metrics1 = map (\<lambda>r. r\<lparr>delta := PyInt 0\<rparr>) metrics2"
  shows "create_kpi_indicators metrics1 = create_kpi_indicators metrics2"
proof -
  have eq: "create_kpi_indicators m = map kpi_indicator (map (\<lambda>r. r\<lparr>delta := PyInt 0\<rparr>) m)" for m
    by (simp add: create_kpi_indicators_def kpi_indicator_delta comp_def)
  show ?thesis
    by (subst eq [of metrics1], subst eq [of metrics2]) (rule arg_cong [OF assms])
qed

text \<open>The sample table and the sample table with the sign of every delta changed.\<close>

theorem create_kpi_indicators_ignores_delta_witness:
  "create_kpi_indicators sample_metrics
     = create_kpi_indicators (map (\<lambda>r. r\<lparr>delta := negate (delta r)\<rparr>) sample_metrics)"
  using create_kpi_indicators_ignores_delta
    [of sample_metrics "map (\<lambda>r. r\<lparr>delta := negate (delta r)\<rparr>) sample_metrics"]
  by (simp add: comp_def)

lemma digit_chars:
  "digit_char 0 = CHR ''0''" "digit_char 1 = CHR ''1''" "digit_char 2 = CHR ''2''"
  "digit_char 3 = CHR ''3''" "digit_char 4 = CHR ''4''" "digit_char 5 = CHR ''5''"
  "digit_char 6 = CHR ''6''" "digit_char 7 = CHR ''7''" "digit_char 8 = CHR ''8''"
  "digit_char 9 = CHR ''9''"
  by code_simp+

lemma apply_col_total:
  "(\<And>x. x \<in> set xs \<Longrightarrow> f x = Inr (g x)) \<Longrightarrow> apply_col f xs = Inr (map g xs)"
  by (induction xs) simp_all

lemma kpi_cards_run:
  "kpi_cards to_html metrics (create_kpi_indicators metrics) =
     Inr (map (\<lambda>i. \<lparr> grid_column = int i + 1,
                      figure_html = to_html (create_kpi_indicators metrics ! i) (i = 0),
                      card_class = delta_class (metrics ! i),
                      card_text = delta_text (metrics ! i) \<rparr>) [0..<length metrics])"
  unfolding kpi_cards_def
  by (rule apply_col_total) (simp add: kpi_card_at_def create_kpi_indicators_def Let_def)

lemma delta_text_symbol: "take (length (delta_symbol row)) (delta_text row) = delta_symbol row"
  by (simp add: delta_text_def Let_def)

lemma sample_metrics_length: "length sample_metrics = 5"
  by (simp add: sample_metrics_def)

lemma integer_metrics_length: "length integer_metrics = 3"
  by (simp add: integer_metrics_def)

lemma sample_delta_text_0: "delta_text (sample_metrics ! 0) = card_up @ '' 4.2%''"
  by code_simp

lemma sample_delta_text_1: "delta_text (sample_metrics ! 1) = card_down @ '' -0.9mo''"
  by code_simp

lemma sample_delta_text_2: "delta_text (sample_metrics ! 2) = card_up @ '' 4.5%''"
  by code_simp

lemma sample_delta_text_3: "delta_text (sample_metrics ! 3) = card_down @ '' -0.6%''"
  by code_simp

lemma sample_delta_text_4: "delta_text (sample_metrics ! 4) = card_up @ '' 0.5x''"
  by code_simp

lemma sample_delta_classes:
  "delta_class (sample_metrics ! 0) = ''positive''"
  "delta_class (sample_metrics ! 1) = ''negative''"
  "delta_class (sample_metrics ! 2) = ''positive''"
  "delta_class (sample_metrics ! 3) = ''negative''"
  "delta_class (sample_metrics ! 4) = ''positive''"
  by code_simp+

lemma upt_5: "[0..<5] = [0, 1, 2, 3, 4]"
  by (simp add: upt_rec)

lemma integer_delta_texts:
  "delta_text (integer_metrics ! 0) = card_up @ '' 4.0%''"
  "delta_text (integer_metrics ! 1) = card_down @ '' -1mo''"
  "delta_text (integer_metrics ! 2) = card_down @ '' 0%''"
  by code_simp+

text \<open>
  How the cards follow the sign of delta. For every metric table the card builder, given the
  figures of the indicator builder, returns one card for each row; a row with a delta above
  zero gets the class \<open>positive\<close>, which the style sheet colours green (#27ae60), and the
  first string literal of the source as its symbol; every other row gets the class
  \<open>negative\<close>, coloured red (#e74c3c), and the second literal.
\<close>

lemma kpi_cards_by_sign:
  "\<exists>cards.
      kpi_cards to_html metrics (create_kpi_indicators metrics) = Inr cards \<and>
      generate_kpi_cards_html to_html metrics (create_kpi_indicators metrics) =
        Inr (concat (map card_html cards)) \<and>
      length cards = length metrics \<and>
      (\<forall>i < length metrics.
         (gt_zero (delta (metrics ! i)) \<longrightarrow>
            card_class (cards ! i) = ''positive'' \<and>
            style_color (card_class (cards ! i)) = Some ''#27ae60'' \<and>
            take (length card_up) (card_text (cards ! i)) = card_up) \<and>
         (\<not> gt_zero (delta (metrics ! i)) \<longrightarrow>
            card_class (cards ! i) = ''negative'' \<and>
            style_color (card_class (cards ! i)) = Some ''#e74c3c'' \<and>
            take (length card_down) (card_text (cards ! i)) = card_down))"
proof -
  let ?cards = "map (\<lambda>i. \<lparr> grid_column = int i + 1,
                      figure_html = to_html (create_kpi_indicators metrics ! i) (i = 0),
                      card_class = delta_class (metrics ! i),
                      card_text = delta_text (metrics ! i) \<rparr>) [0..<length metrics]"
  have up: "gt_zero (delta r) \<Longrightarrow> take (length card_up) (delta_text r) = card_up" for r
    using delta_text_symbol [of r] by (simp add: delta_symbol_def)
  have down: "\<not> gt_zero (delta r) \<Longrightarrow> take (length card_down) (delta_text r) = card_down" for r
    using delta_text_symbol [of r] by (simp add: delta_symbol_def)
  show ?thesis
    apply (rule exI [of _ ?cards])
    by (simp add: kpi_cards_run generate_kpi_cards_html_def delta_class_def style_color_def
        up down)
qed

text \<open>
  C4, on the five-row sample table with a rendering library that answers \<open>FIG\<close> for every
  figure. The indicator builder returns five figures, and the HTML of the card builder is
  five cards, written out below: the opening tag of a card occurs five times. The card of
  Monthly Recurring Revenue (delta 4.2) has the class \<open>positive\<close> and the card of CAC Payback
  Period (delta -0.9) the class \<open>negative\<close>, as the sign of delta asks. But the symbols are
  not arrows: the two string literals of the source are eight and seven bytes that are not
  the arrows U+2197 and U+2198 (nor are those of the indicator builder U+2191 and U+2193),
  and no arrow occurs in the HTML.
\<close>

theorem kpi_cards_sample_symbols:
  \<open>length (create_kpi_indicators sample_metrics) = 5 \<and>
   (\<exists>html.
      generate_kpi_cards_html (\<lambda>_ _. ''FIG'') sample_metrics (create_kpi_indicators sample_metrics)
        = Inr html \<and>
      html =
        concat (map (\<lambda>(col, cls, txt).
            newline @ indent 8 @
              ''<div class="card kpi-card" style="grid-row: 1; grid-column: '' @ col @ '';">'' @
            newline @ indent 12 @ ''FIG'' @
            newline @ indent 12 @ ''<div class="delta-indicator">'' @
            newline @ indent 16 @ ''<span class="'' @ cls @ ''">'' @ txt @ ''</span>'' @
            newline @ indent 12 @ ''</div>'' @
            newline @ indent 8 @ ''</div>'' @
            newline @ indent 8)
          [(''1'', ''positive'', card_up @ '' 4.2%''),
           (''2'', ''negative'', card_down @ '' -0.9mo''),
           (''3'', ''positive'', card_up @ '' 4.5%''),
           (''4'', ''negative'', card_down @ '' -0.6%''),
           (''5'', ''positive'', card_up @ '' 0.5x'')]) \<and>
      count_sub card_tag html = 5 \<and>
      count_sub arrow_up_right html = 0 \<and>
      count_sub arrow_down_right html = 0) \<and>
   metric (sample_metrics ! 0) = ''Monthly Recurring Revenue'' \<and>
   metric (sample_metrics ! 1) = ''CAC Payback Period'' \<and>
   card_up = [CHR 0xC3, CHR 0xA2, CHR 0xE2, CHR 0x80, CHR 0xA0, CHR 0xE2, CHR 0x80, CHR 0x94] \<and>
   card_down = [CHR 0xC3, CHR 0xA2, CHR 0xE2, CHR 0x80, CHR 0xA0, CHR 0xCB, CHR 0x9C] \<and>
   card_up \<noteq> arrow_up_right \<and> card_down \<noteq> arrow_down_right \<and>
   indicator_up \<noteq> arrow_up \<and> indicator_down \<noteq> arrow_down\<close>
proof -
  let ?html = \<open>concat (map (\<lambda>(col, cls, txt).
            newline @ indent 8 @
              ''<div class="card kpi-card" style="grid-row: 1; grid-column: '' @ col @ '';">'' @
            newline @ indent 12 @ ''FIG'' @
            newline @ indent 12 @ ''<div class="delta-indicator">'' @
            newline @ indent 16 @ ''<span class="'' @ cls @ ''">'' @ txt @ ''</span>'' @
            newline @ indent 12 @ ''</div>'' @
            newline @ indent 8 @ ''</div>'' @
            newline @ indent 8)
          [(''1'', ''positive'', card_up @ '' 4.2%''),
           (''2'', ''negative'', card_down @ '' -0.9mo''),
           (''3'', ''positive'', card_up @ '' 4.5%''),
           (''4'', ''negative'', card_down @ '' -0.6%''),
           (''5'', ''positive'', card_up @ '' 0.5x'')])\<close>
  have run: "generate_kpi_cards_html (\<lambda>_ _. ''FIG'') sample_metrics
      (create_kpi_indicators sample_metrics) = Inr ?html"
    unfolding generate_kpi_cards_html_def kpi_cards_run sample_metrics_length upt_5
    by (simp add: card_html_def sample_delta_text_0 sample_delta_text_1 [unfolded One_nat_def]
        sample_delta_text_2 sample_delta_text_3 sample_delta_text_4
        sample_delta_classes sample_delta_classes(2) [unfolded One_nat_def]
        newline_def indent_def str_int_def str_digits.simps digit_chars)
  have tags: "count_sub card_tag ?html = 5"
    by code_simp
  have no_up: "count_sub arrow_up_right ?html = 0"
    by code_simp
  have no_down: "count_sub arrow_down_right ?html = 0"
    by code_simp
  have figs: "length (create_kpi_indicators sample_metrics) = 5"
    by (simp add: create_kpi_indicators_def sample_metrics_length)
  have names: "metric (sample_metrics ! 0) = ''Monthly Recurring Revenue''"
    "metric (sample_metrics ! 1) = ''CAC Payback Period''"
    by (simp_all add: sample_metrics_def)
  have symbols: "card_up \<noteq> arrow_up_right" "card_down \<noteq> arrow_down_right"
    "indicator_up \<noteq> arrow_up" "indicator_down \<noteq> arrow_down"
    by (simp_all add: card_up_def card_down_def indicator_up_def indicator_down_def
        arrow_up_right_def arrow_down_right_def arrow_up_def arrow_down_def)
  from run tags no_up no_down have "\<exists>html.
      generate_kpi_cards_html (\<lambda>_ _. ''FIG'') sample_metrics (create_kpi_indicators sample_metrics)
        = Inr html \<and> html = ?html \<and> count_sub card_tag html = 5 \<and>
      count_sub arrow_up_right html = 0 \<and> count_sub arrow_down_right html = 0"
    by blast
  with figs names symbols show ?thesis
    by (simp only: card_up_def card_down_def) blast
qed

text \<open>
  C3, as the specification words it, fails on the first row of the sample table (Monthly
  Recurring Revenue, prefix \<open>$\<close>, suffix \<open>M\<close>, delta 4.2): the suffix is not the percent sign,
  yet the text is the delta with one decimal and a percent sign, not the raw number between
  prefix and suffix.
\<close>

theorem delta_text_counterexample:
  "suffix (sample_metrics ! 0) = Some ''M'' \<and>
   delta_text (sample_metrics ! 0) = card_up @ '' 4.2%'' \<and>
   spec_delta_text (sample_metrics ! 0) = card_up @ '' $4.2M'' \<and>
   delta_text (sample_metrics ! 0) \<noteq> spec_delta_text (sample_metrics ! 0)"
proof -
  have a: "delta_text (sample_metrics ! 0) = card_up @ '' 4.2%''"
    by (rule sample_delta_text_0)
  have b: "spec_delta_text (sample_metrics ! 0) = card_up @ '' $4.2M''"
    by code_simp
  have c: "suffix (sample_metrics ! 0) = Some ''M''"
    by (simp add: sample_metrics_def)
  show ?thesis
    unfolding a b using c by simp
qed

text \<open>
  C3, amended. For every metric table, whose delta column holds integers or floats, the card
  builder, given the figures of the indicator builder, returns the HTML written out below:
  one card for each row, and in the \<open>span\<close> of the card the text of the delta. For a row
  whose suffix is \<open>M\<close> that text is the symbol, a space, the delta with one decimal and a
  percent sign (prefix and suffix are not used); for every other row, the percent suffix
  included, it is the symbol, a space, and the raw number (\<open>str\<close> of the integer or float)
  between the row's prefix and suffix, either of them empty when the cell is empty.
\<close>

theorem kpi_cards_delta_text:
  \<open>(\<exists>cards.
      kpi_cards to_html metrics (create_kpi_indicators metrics) = Inr cards \<and>
      length cards = length metrics \<and>
      (\<forall>i < length metrics.
         card_text (cards ! i) =
           (if suffix (metrics ! i) = Some ''M''
            then delta_symbol (metrics ! i) @ '' '' @ number_fixed 1 (delta (metrics ! i)) @ ''%''
            else delta_symbol (metrics ! i) @ '' '' @
                 (case prefix (metrics ! i) of None \<Rightarrow> [] | Some p \<Rightarrow> p) @
                 number_str (delta (metrics ! i)) @
                 (case suffix (metrics ! i) of None \<Rightarrow> [] | Some s \<Rightarrow> s)))) \<and>
   generate_kpi_cards_html to_html metrics (create_kpi_indicators metrics) =
     Inr (concat (map (\<lambda>i.
        newline @ indent 8 @
          ''<div class="card kpi-card" style="grid-row: 1; grid-column: '' @
          str_int (int i + 1) @ '';">'' @
        newline @ indent 12 @ to_html (create_kpi_indicators metrics ! i) (i = 0) @
        newline @ indent 12 @ ''<div class="delta-indicator">'' @
        newline @ indent 16 @ ''<span class="'' @
          (if gt_zero (delta (metrics ! i)) then ''positive'' else ''negative'') @ ''">'' @
          (if suffix (metrics ! i) = Some ''M''
           then (if gt_zero (delta (metrics ! i)) then card_up else card_down) @ '' '' @
                number_fixed 1 (delta (metrics ! i)) @ ''%''
           else (if gt_zero (delta (metrics ! i)) then card_up else card_down) @ '' '' @
                (case prefix (metrics ! i) of None \<Rightarrow> [] | Some p \<Rightarrow> p) @
                number_str (delta (metrics ! i)) @
                (case suffix (metrics ! i) of None \<Rightarrow> [] | Some s \<Rightarrow> s)) @
          ''</span>'' @
        newline @ indent 12 @ ''</div>'' @
        newline @ indent 8 @ ''</div>'' @
        newline @ indent 8) [0..<length metrics]))\<close>
proof
  show "\<exists>cards.
      kpi_cards to_html metrics (create_kpi_indicators metrics) = Inr cards \<and>
      length cards = length metrics \<and>
      (\<forall>i < length metrics.
         card_text (cards ! i) =
           (if suffix (metrics ! i) = Some ''M''
            then delta_symbol (metrics ! i) @ '' '' @ number_fixed 1 (delta (metrics ! i)) @ ''%''
            else delta_symbol (metrics ! i) @ '' '' @
                 (case prefix (metrics ! i) of None \<Rightarrow> [] | Some p \<Rightarrow> p) @
                 number_str (delta (metrics ! i)) @
                 (case suffix (metrics ! i) of None \<Rightarrow> [] | Some s \<Rightarrow> s)))"
    by (simp add: kpi_cards_run delta_text_def Let_def)
  have card: \<open>card_html \<lparr> grid_column = int i + 1, figure_html = fig,
                card_class = delta_class row, card_text = delta_text row \<rparr> =
        newline @ indent 8 @
          ''<div class="card kpi-card" style="grid-row: 1; grid-column: '' @
          str_int (int i + 1) @ '';">'' @
        newline @ indent 12 @ fig @
        newline @ indent 12 @ ''<div class="delta-indicator">'' @
        newline @ indent 16 @ ''<span class="'' @
          (if gt_zero (delta row) then ''positive'' else ''negative'') @ ''">'' @
          (if suffix row = Some ''M''
           then (if gt_zero (delta row) then card_up else card_down) @ '' '' @
                number_fixed 1 (delta row) @ ''%''
           else (if gt_zero (delta row) then card_up else card_down) @ '' '' @
                (case prefix row of None \<Rightarrow> [] | Some p \<Rightarrow> p) @
                number_str (delta row) @
                (case suffix row of None \<Rightarrow> [] | Some s \<Rightarrow> s)) @
          ''</span>'' @
        newline @ indent 12 @ ''</div>'' @
        newline @ indent 8 @ ''</div>'' @
        newline @ indent 8\<close> for i fig row
    by (simp add: card_html_def delta_class_def delta_text_def delta_symbol_def Let_def)
  show \<open>generate_kpi_cards_html to_html metrics (create_kpi_indicators metrics) =
     Inr (concat (map (\<lambda>i.
        newline @ indent 8 @
          ''<div class="card kpi-card" style="grid-row: 1; grid-column: '' @
          str_int (int i + 1) @ '';">'' @
        newline @ indent 12 @ to_html (create_kpi_indicators metrics ! i) (i = 0) @
        newline @ indent 12 @ ''<div class="delta-indicator">'' @
        newline @ indent 16 @ ''<span class="'' @
          (if gt_zero (delta (metrics ! i)) then ''positive'' else ''negative'') @ ''">'' @
          (if suffix (metrics ! i) = Some ''M''
           then (if gt_zero (delta (metrics ! i)) then card_up else card_down) @ '' '' @
                number_fixed 1 (delta (metrics ! i)) @ ''%''
           else (if gt_zero (delta (metrics ! i)) then card_up else card_down) @ '' '' @
                (case prefix (metrics ! i) of None \<Rightarrow> [] | Some p \<Rightarrow> p) @
                number_str (delta (metrics ! i)) @
                (case suffix (metrics ! i) of None \<Rightarrow> [] | Some s \<Rightarrow> s)) @
          ''</span>'' @
        newline @ indent 12 @ ''</div>'' @
        newline @ indent 8 @ ''</div>'' @
        newline @ indent 8) [0..<length metrics]))\<close>
    by (simp only: generate_kpi_cards_html_def kpi_cards_run sum.case map_map comp_def card)
qed

text \<open>
  On a table of integers: the row with suffix \<open>M\<close> and delta 4 shows \<open>4.0%\<close>, the row with
  suffix \<open>mo\<close> and delta -1 shows \<open>-1mo\<close>, the row with the percent suffix and delta 0 shows
  \<open>0%\<close>. On the sample table of floats, the row with the percent suffix and delta 4.5 shows the
  raw \<open>4.5\<close> followed by its suffix.
\<close>

theorem kpi_cards_delta_text_witness:
  "(\<exists>cards.
     kpi_cards (\<lambda>_ _. []) integer_metrics (create_kpi_indicators integer_metrics) = Inr cards \<and>
     card_text (cards ! 0) = card_up @ '' 4.0%'' \<and>
     card_text (cards ! 1) = card_down @ '' -1mo'' \<and>
     card_text (cards ! 2) = card_down @ '' 0%'') \<and>
   (\<exists>cards.
     kpi_cards (\<lambda>_ _. []) sample_metrics (create_kpi_indicators sample_metrics) = Inr cards \<and>
     card_text (cards ! 2) = card_up @ '' 4.5%'')"
proof -
  have eq: "(if suffix r = Some ''M''
           then delta_symbol r @ '' '' @ number_fixed 1 (delta r) @ ''%''
           else delta_symbol r @ '' '' @ (case prefix r of None \<Rightarrow> [] | Some p \<Rightarrow> p) @
                number_str (delta r) @ (case suffix r of None \<Rightarrow> [] | Some s \<Rightarrow> s))
        = delta_text r" for r
    by (simp add: delta_text_def Let_def)
  from kpi_cards_delta_text [of "\<lambda>_ _. []" integer_metrics] obtain cards where
    run: "kpi_cards (\<lambda>_ _. []) integer_metrics (create_kpi_indicators integer_metrics) = Inr cards"
    and shown: "\<forall>i < length integer_metrics.
        card_text (cards ! i) =
          (if suffix (integer_metrics ! i) = Some ''M''
           then delta_symbol (integer_metrics ! i) @ '' '' @
                number_fixed 1 (delta (integer_metrics ! i)) @ ''%''
           else delta_symbol (integer_metrics ! i) @ '' '' @
                (case prefix (integer_metrics ! i) of None \<Rightarrow> [] | Some p \<Rightarrow> p) @
                number_str (delta (integer_metrics ! i)) @
                (case suffix (integer_metrics ! i) of None \<Rightarrow> [] | Some s \<Rightarrow> s))"
    by blast
  have "card_text (cards ! i) = delta_text (integer_metrics ! i)" if "i < 3" for i
    using shown that by (simp add: eq integer_metrics_length)
  then have "card_text (cards ! 0) = delta_text (integer_metrics ! 0)"
    "card_text (cards ! 1) = delta_text (integer_metrics ! 1)"
    "card_text (cards ! 2) = delta_text (integer_metrics ! 2)"
    by simp_all
  with run have ints: "\<exists>cards.
     kpi_cards (\<lambda>_ _. []) integer_metrics (create_kpi_indicators integer_metrics) = Inr cards \<and>
     card_text (cards ! 0) = card_up @ '' 4.0%'' \<and>
     card_text (cards ! 1) = card_down @ '' -1mo'' \<and>
     card_text (cards ! 2) = card_down @ '' 0%''"
    by (simp add: integer_delta_texts integer_delta_texts(2) [unfolded One_nat_def])
  from kpi_cards_delta_text [of "\<lambda>_ _. []" sample_metrics] obtain cards' where
    run': "kpi_cards (\<lambda>_ _. []) sample_metrics (create_kpi_indicators sample_metrics) = Inr cards'"
    and shown': "\<forall>i < length sample_metrics.
        card_text (cards' ! i) =
          (if suffix (sample_metrics ! i) = Some ''M''
           then delta_symbol (sample_metrics ! i) @ '' '' @
                number_fixed 1 (delta (sample_metrics ! i)) @ ''%''
           else delta_symbol (sample_metrics ! i) @ '' '' @
                (case prefix (sample_metrics ! i) of None \<Rightarrow> [] | Some p \<Rightarrow> p) @
                number_str (delta (sample_metrics ! i)) @
                (case suffix (sample_metrics ! i) of None \<Rightarrow> [] | Some s \<Rightarrow> s))"
    by blast
  have "card_text (cards' ! 2) = delta_text (sample_metrics ! 2)"
    using shown' by (simp add: eq sample_metrics_length)
  with run' have floats: "\<exists>cards.
     kpi_cards (\<lambda>_ _. []) sample_metrics (create_kpi_indicators sample_metrics) = Inr cards \<and>
     card_text (cards ! 2) = card_up @ '' 4.5%''"
    by (simp add: sample_delta_text_2)
  from ints floats show ?thesis
    by blast
qed

subsection \<open>The ARR waterfall builder\<close>

lemma digit_char_is_digit:
  assumes "0 \<le> d" "d < 10"
  shows "is_digit (digit_char d)"
proof -
  from assms have "d = 0 \<or> d = 1 \<or> d = 2 \<or> d = 3 \<or> d = 4 \<or> d = 5 \<or> d = 6 \<or> d = 7 \<or> d = 8 \<or> d = 9"
    by arith
  then show ?thesis
    by (elim disjE) (simp_all add: is_digit_def digit_chars)
qed

lemma str_digits_is_digits: "0 \<le> n \<Longrightarrow> is_digits (str_digits n)"
proof (induction n rule: str_digits.induct)
  case (1 n)
  show ?case
  proof (cases "n < 10")
    case True
    then show ?thesis
      using 1 by (simp add: str_digits.simps [of n] is_digits_def digit_char_is_digit)
  next
    case False
    then have "is_digits (str_digits (n div 10))"
      using 1 by simp
    moreover have "is_digit (digit_char (n mod 10))"
      by (rule digit_char_is_digit) simp_all
    ultimately show ?thesis
      using False by (simp add: str_digits.simps [of n] is_digits_def)
  qed
qed

lemma round_half_even_nonneg: "0 \<le> x \<Longrightarrow> 0 \<le> round_half_even x"
  by (auto simp: round_half_even_def Let_def)

lemma format_fixed_1:
  "format_fixed (Suc 0) x =
     (if x < 0 then ''-'' else []) @ str_digits (round_half_even (\<bar>x\<bar> * 10) div 10) @ ''.'' @
     [digit_char (round_half_even (\<bar>x\<bar> * 10) mod 10)]"
  by (simp add: format_fixed_def Let_def zfill_def
      str_digits.simps [of "round_half_even (\<bar>x\<bar> * 10) mod 10"])

lemma format_fixed_0:
  "format_fixed 0 x = (if x < 0 then ''-'' else []) @ str_digits (round_half_even \<bar>x\<bar>)"
  by (simp add: format_fixed_def Let_def)

text \<open>
  C2, as the specification words it, fails for a value of -2,000,000, which is below
  1,000,000: the text is in millions, not in thousands.
\<close>

theorem format_value_counterexample:
  "\<not> 1000000 \<le> (- 2000000 :: pyfloat) \<and>
   format_value (- 2000000) = ''$-2.0M'' \<and>
   spec_format_value (- 2000000) = ''$-2000K'' \<and>
   format_value (- 2000000) \<noteq> spec_format_value (- 2000000)"
proof -
  have a: "format_value (- 2000000) = ''$-2.0M''"
    by code_simp
  have b: "spec_format_value (- 2000000) = ''$-2000K''"
    by code_simp
  show ?thesis
    unfolding a b by simp
qed

text \<open>
  C2, amended. For every table the waterfall has one text for each row, and for every value
  \<open>val\<close> with quotient \<open>q\<close> (the float \<open>val / 1000000\<close>, or \<open>val / 1000\<close>): when the absolute
  value of \<open>val\<close> is at least 1,000,000, the text is a dollar sign, a minus sign if \<open>q\<close> is
  negative, the digits of \<open>q\<close> rounded to one decimal with a point before the last digit, and
  \<open>M\<close>; otherwise it is a dollar sign, a minus sign if \<open>q\<close> is negative, the digits of \<open>q\<close>
  rounded to an integer, and \<open>K\<close>.
\<close>

theorem format_value_shape:
  "wf_text (create_arr_waterfall arr) = map (\<lambda>r. format_value (arr_value r)) arr \<and>
   (1000000 \<le> \<bar>val\<bar> \<longrightarrow>
      (\<exists>ds d. format_value val =
                 ''$'' @ (if fdiv val 1000000 < 0 then ''-'' else []) @ ds @ ''.'' @ [d] @ ''M'' \<and>
              is_digits ds \<and> is_digit d \<and>
              ds = str_digits (round_half_even (\<bar>fdiv val 1000000\<bar> * 10) div 10) \<and>
              d = digit_char (round_half_even (\<bar>fdiv val 1000000\<bar> * 10) mod 10))) \<and>
   (\<bar>val\<bar> < 1000000 \<longrightarrow>
      (\<exists>ds. format_value val = ''$'' @ (if fdiv val 1000 < 0 then ''-'' else []) @ ds @ ''K'' \<and>
            is_digits ds \<and>
            ds = str_digits (round_half_even \<bar>fdiv val 1000\<bar>)))"
proof (intro conjI impI)
  show "wf_text (create_arr_waterfall arr) = map (\<lambda>r. format_value (arr_value r)) arr"
    by (simp add: create_arr_waterfall_def Let_def comp_def)
next
  assume big: "1000000 \<le> \<bar>val\<bar>"
  let ?n = "round_half_even (\<bar>fdiv val 1000000\<bar> * 10)"
  have n: "0 \<le> ?n"
    by (rule round_half_even_nonneg) simp
  then have "0 \<le> ?n div 10"
    by simp
  then have ds: "is_digits (str_digits (?n div 10))"
    by (rule str_digits_is_digits)
  have d: "is_digit (digit_char (?n mod 10))"
    by (rule digit_char_is_digit) simp_all
  have "format_value val =
      ''$'' @ (if fdiv val 1000000 < 0 then ''-'' else []) @ str_digits (?n div 10) @ ''.'' @
      [digit_char (?n mod 10)] @ ''M''"
    using big by (simp add: format_value_def format_fixed_1)
  with ds d show "\<exists>ds d. format_value val =
                 ''$'' @ (if fdiv val 1000000 < 0 then ''-'' else []) @ ds @ ''.'' @ [d] @ ''M'' \<and>
              is_digits ds \<and> is_digit d \<and>
              ds = str_digits (round_half_even (\<bar>fdiv val 1000000\<bar> * 10) div 10) \<and>
              d = digit_char (round_half_even (\<bar>fdiv val 1000000\<bar> * 10) mod 10)"
    by blast
next
  assume small: "\<bar>val\<bar> < 1000000"
  let ?n = "round_half_even \<bar>fdiv val 1000\<bar>"
  have "0 \<le> ?n"
    by (rule round_half_even_nonneg) simp
  then have ds: "is_digits (str_digits ?n)"
    by (rule str_digits_is_digits)
  have "format_value val = ''$'' @ (if fdiv val 1000 < 0 then ''-'' else []) @ str_digits ?n @ ''K''"
    using small by (simp add: format_value_def format_fixed_0)
  with ds show "\<exists>ds. format_value val =
            ''$'' @ (if fdiv val 1000 < 0 then ''-'' else []) @ ds @ ''K'' \<and>
            is_digits ds \<and> ds = str_digits (round_half_even \<bar>fdiv val 1000\<bar>)"
    by blast
qed

text \<open>The starting balance of the generator, a churn of -350,000, and a loss of two million.\<close>

theorem format_value_shape_witness:
  "format_value 28000000 = ''$28.0M'' \<and> format_value (- 350000) = ''$-350K'' \<and>
   (\<exists>ds d. format_value (- 2000000) = ''$-'' @ ds @ ''.'' @ [d] @ ''M'' \<and> is_digits ds \<and> is_digit d)"
proof -
  have neg: "fdiv (- 2000000) 1000000 < 0"
    by code_simp
  have "(1000000::pyfloat) \<le> \<bar>- 2000000\<bar>"
    by simp
  with format_value_shape [of "[]" "- 2000000"] neg
  have "\<exists>ds d. format_value (- 2000000) = ''$-'' @ ds @ ''.'' @ [d] @ ''M'' \<and> is_digits ds \<and> is_digit d"
    by auto
  moreover have "format_value 28000000 = ''$28.0M''"
    by code_simp
  moreover have "format_value (- 350000) = ''$-350K''"
    by code_simp
  ultimately show ?thesis
    by blast
qed

subsection \<open>Loading the data and writing the page\<close>

lemma load_data_first_error:
  "first_error d = Some e \<Longrightarrow> load_data d w = on_load_error e w"
  unfolding load_data_def first_error_def read_errors_def read_error_def
  apply (cases "metrics_csv d"; simp)
  apply (cases "channel_csv d"; simp)
  apply (cases "arr_csv d"; simp)
  apply (cases "funnel_csv d"; simp)
  apply (cases "cohort_csv d"; simp)
  apply (cases "additional_csv d"; simp)
  done

lemma load_data_complete:
  "first_error d = None \<Longrightarrow> \<exists>t. load_data d w = (w, Inr (Some t))"
  unfolding load_data_def first_error_def read_errors_def read_error_def
  apply (cases "metrics_csv d"; simp)
  apply (cases "channel_csv d"; simp)
  apply (cases "arr_csv d"; simp)
  apply (cases "funnel_csv d"; simp)
  apply (cases "cohort_csv d"; simp)
  apply (cases "additional_csv d"; simp)
  done

lemma any_missing_first_error:
  assumes "any_missing d"
  shows "\<exists>e. first_error d = Some e"
proof -
  from assms obtain msg where "Some (FileNotFoundError msg) \<in> set (read_errors d)"
    unfolding any_missing_def by blast
  then have "Some (FileNotFoundError msg) \<in> set (filter (\<lambda>e. e \<noteq> None) (read_errors d))"
    by simp
  then have "filter (\<lambda>e. e \<noteq> None) (read_errors d) \<noteq> []"
    by (metis empty_iff empty_set)
  then obtain x xs where xs: "filter (\<lambda>e. e \<noteq> None) (read_errors d) = x # xs"
    by (meson neq_Nil_conv)
  then have "x \<in> set (filter (\<lambda>e. e \<noteq> None) (read_errors d))"
    by simp
  then have "x \<noteq> None"
    by simp
  then show ?thesis
    using xs by (auto simp: first_error_def)
qed

lemma print_dashboard_file: "dashboard_file (print line w) = dashboard_file w"
  by (simp add: print_def)

lemma on_load_error_file: "dashboard_file (fst (on_load_error e w)) = dashboard_file w"
  by (cases e) (simp_all add: on_load_error_def print_def)

lemma on_load_error_result: "snd (on_load_error e w) \<noteq> Inr (Some t)"
  by (cases e) (simp_all add: on_load_error_def)

lemma create_funnel_sankey_total: "\<exists>fig. create_funnel_sankey funnel = Inr fig"
proof -
  have src: "set (map source funnel) \<subseteq> set (unique (ravel funnel))"
    by (auto simp: unique_set ravel_set)
  have tgt: "set (map target funnel) \<subseteq> set (unique (ravel funnel))"
    by (auto simp: unique_set ravel_set)
  from apply_col_index [OF src] obtain ss where
    ss: "apply_col (list_index (unique (ravel funnel))) (map source funnel) = Inr ss"
    by auto
  from apply_col_index [OF tgt] obtain ts where
    ts: "apply_col (list_index (unique (ravel funnel))) (map target funnel) = Inr ts"
    by auto
  show ?thesis
    by (simp add: create_funnel_sankey_def Let_def ss ts)
qed

text \<open>When all six files load, the run writes the page and returns.\<close>

lemma main_complete:
  assumes "first_error d = None"
  shows "\<exists>p. dashboard_file (fst (main pl d w)) = Some p \<and> snd (main pl d w) = Inr ()"
proof -
  from load_data_complete [OF assms] obtain t where
    t: "load_data d (print ''Creating SaaS Business Dashboard...'' w)
          = (print ''Creating SaaS Business Dashboard...'' w, Inr (Some t))"
    by blast
  obtain fig where fig: "create_funnel_sankey (t_funnel t) = Inr fig"
    using create_funnel_sankey_total by blast
  show ?thesis
    by (simp add: main_def Let_def t create_dashboard_html_def fig generate_kpi_cards_html_def
        kpi_cards_run print_dashboard_file)
qed

text \<open>
  A file that is there but unreadable is another matter: with an empty \<open>metrics.csv\<close>
  (pandas raises \<open>EmptyDataError\<close>) the run ends with that exception, whatever else is
  missing.
\<close>

lemma main_unreadable_file:
  "snd (main no_plotly empty_metrics_dir fresh_world) = Inl (OtherError ''EmptyDataError'') \<and>
   dashboard_file (fst (main no_plotly empty_metrics_dir fresh_world)) = None"
proof -
  have "main no_plotly empty_metrics_dir fresh_world =
      (print ''Creating SaaS Business Dashboard...'' fresh_world, Inl (OtherError ''EmptyDataError''))"
    by (simp add: main_def Let_def load_data_def empty_metrics_dir_def on_load_error_def)
  then show ?thesis
    by (simp add: print_def fresh_world_def)
qed

text \<open>
  When the first read that fails, in the order the renderer reads the six files, fails
  because the file is missing, the renderer prints its opening line, the error line with the
  text of the exception and the line that tells the user to run the generator, and returns.
  Whenever any of the six files is missing, the dashboard file is not written.
\<close>

lemma main_first_missing:
  "(first_error d = Some (FileNotFoundError msg) \<longrightarrow>
      main pl d w =
        (w\<lparr>stdout := stdout w @ [''Creating SaaS Business Dashboard...'',
                                  ''Error loading data: '' @ msg, run_generator_line]\<rparr>,
         Inr ())) \<and>
   (any_missing d \<longrightarrow> dashboard_file (fst (main pl d w)) = dashboard_file w)"
proof (intro conjI impI)
  assume "first_error d = Some (FileNotFoundError msg)"
  then have "load_data d w' = on_load_error (FileNotFoundError msg) w'" for w'
    by (rule load_data_first_error)
  then show "main pl d w =
        (w\<lparr>stdout := stdout w @ [''Creating SaaS Business Dashboard...'',
                                  ''Error loading data: '' @ msg, run_generator_line]\<rparr>,
         Inr ())"
    by (simp add: main_def Let_def on_load_error_def print_def run_generator_line_def)
next
  assume "any_missing d"
  then obtain e where "first_error d = Some e"
    using any_missing_first_error by blast
  then have load: "load_data d w' = on_load_error e w'" for w'
    by (rule load_data_first_error)
  let ?w1 = "print ''Creating SaaS Business Dashboard...'' w"
  obtain w2 r where r: "on_load_error e ?w1 = (w2, r)"
    by (cases "on_load_error e ?w1")
  have unwritten: "dashboard_file w2 = dashboard_file w"
    using on_load_error_file [of e ?w1] r by (simp add: print_def)
  have not_loaded: "r \<noteq> Inr (Some t)" for t
    using on_load_error_result [of e ?w1 t] r by simp
  show "dashboard_file (fst (main pl d w)) = dashboard_file w"
    using unwritten not_loaded
    by (simp add: main_def Let_def load r split: sum.splits option.splits)
qed

lemma first_error_in_reads: "first_error d = Some e \<Longrightarrow> Some e \<in> set (read_errors d)"
proof -
  assume a: "first_error d = Some e"
  show ?thesis
  proof (cases "filter (\<lambda>e. e \<noteq> None) (read_errors d)")
    case Nil
    then show ?thesis using a by (simp add: first_error_def)
  next
    case (Cons x xs)
    then have "x \<in> set (filter (\<lambda>e. e \<noteq> None) (read_errors d))"
      by simp
    then have "x \<in> set (read_errors d)"
      by simp
    moreover have "x = Some e"
      using a Cons by (simp add: first_error_def)
    ultimately show ?thesis by simp
  qed
qed

text \<open>
  C5. Each of the six files either loads or is missing (none is there but unreadable). When
  any of them is missing, the renderer prints its opening line, the error line with the text
  of the exception of a missing file and the line that tells the user to run the generator
  first; it returns normally, so that no stack trace appears; and it changes nothing else:
  the directory \<open>output\<close> is not created and the dashboard file is not written.
\<close>

theorem main_any_missing:
  assumes "list_all loads_or_missing (read_errors d)" and "any_missing d"
  shows "\<exists>msg. Some (FileNotFoundError msg) \<in> set (read_errors d) \<and>
           main pl d w =
             (w\<lparr>stdout := stdout w @ [''Creating SaaS Business Dashboard...'',
                                       ''Error loading data: '' @ msg, run_generator_line]\<rparr>,
              Inr ()) \<and>
           snd (main pl d w) = Inr () \<and>
           run_generator_line \<in> set (stdout (fst (main pl d w))) \<and>
           dashboard_file (fst (main pl d w)) = dashboard_file w \<and>
           output_dir (fst (main pl d w)) = output_dir w"
proof -
  from assms(2) obtain e where e: "first_error d = Some e"
    using any_missing_first_error by blast
  then have mem: "Some e \<in> set (read_errors d)"
    by (rule first_error_in_reads)
  with assms(1) have "loads_or_missing (Some e)"
    by (simp add: list_all_iff)
  then obtain msg where msg: "e = FileNotFoundError msg"
    by (cases e) (simp_all add: loads_or_missing_def)
  have run: "main pl d w =
             (w\<lparr>stdout := stdout w @ [''Creating SaaS Business Dashboard...'',
                                       ''Error loading data: '' @ msg, run_generator_line]\<rparr>,
              Inr ())"
    using main_first_missing [of d msg pl w] e msg by simp
  show ?thesis
    apply (rule exI [of _ msg])
    using mem msg by (simp add: run)
qed

text \<open>
  Only \<open>cohort_data.csv\<close> is missing: the four files before it and the one after it load.
\<close>

theorem main_any_missing_witness:
  "list_all loads_or_missing (read_errors cohort_missing_dir) \<and>
   any_missing cohort_missing_dir \<and>
   snd (main no_plotly cohort_missing_dir fresh_world) = Inr () \<and>
   run_generator_line \<in> set (stdout (fst (main no_plotly cohort_missing_dir fresh_world))) \<and>
   dashboard_file (fst (main no_plotly cohort_missing_dir fresh_world)) = None \<and>
   output_dir (fst (main no_plotly cohort_missing_dir fresh_world)) = False"
proof -
  have reads: "list_all loads_or_missing (read_errors cohort_missing_dir)"
    by (simp add: read_errors_def read_error_def cohort_missing_dir_def loads_or_missing_def)
  have missing: "any_missing cohort_missing_dir"
    unfolding any_missing_def
    by (rule exI [of _ "no_such_file ''data/cohort_data.csv''"])
       (simp add: read_errors_def read_error_def cohort_missing_dir_def)
  from main_any_missing [OF reads missing, of no_plotly fresh_world]
  have "snd (main no_plotly cohort_missing_dir fresh_world) = Inr ()"
    and "run_generator_line \<in> set (stdout (fst (main no_plotly cohort_missing_dir fresh_world)))"
    and "dashboard_file (fst (main no_plotly cohort_missing_dir fresh_world))
          = dashboard_file fresh_world"
    and "output_dir (fst (main no_plotly cohort_missing_dir fresh_world)) = output_dir fresh_world"
    by blast+
  with reads missing show ?thesis
    by (simp add: fresh_world_def)
qed

subsection \<open>data_gen.py: the clip floors\<close>

lemma clip_floor: "lo \<le> clip x (Some lo) None"
  by (simp add: clip_def)

lemma clip_range: "lo \<le> hi \<Longrightarrow> lo \<le> clip x (Some lo) (Some hi) \<and> clip x (Some lo) (Some hi) \<le> hi"
  by (simp add: clip_def min_def max_def)

lemma astype_int_floor: "of_int k \<le> x \<Longrightarrow> 0 \<le> k \<Longrightarrow> k \<le> astype_int x"
  by (simp add: astype_int_def le_floor_iff)

lemma channel_value_floor: "50 \<le> channel_value npsin noise n i channel j"
proof -
  have "(50::int) \<le> astype_int (clip x (Some 50) None)" for x
    by (rule astype_int_floor) (simp_all add: clip_def)
  then show ?thesis
    by (simp add: channel_value_def Let_def)
qed

lemma dates_length: "length (date_range_ms (2022, 3) (2024, 11)) = 33"
  by (simp add: date_range_ms_def)

lemma channels_length: "length channels = 7"
  by (simp add: channels_def)

text \<open>
  C7. Whatever \<open>np.sin\<close> and the random draws return, the channel-acquisition table has the
  seven channel columns, each with 33 values (the month starts from March 2022 to November
  2024), and every value of every column is an integer of at least 50.
\<close>

theorem channel_acquisition_floor:
  "map fst (columns (generate_channel_acquisition npsin noise)) = channels \<and>
   (\<forall>c \<in> set (columns (generate_channel_acquisition npsin noise)).
      length (snd c) = 33 \<and> (\<forall>v \<in> set (snd c). 50 \<le> v))"
proof
  have "map fst (columns (generate_channel_acquisition npsin noise))
      = map snd (zip [0..<length channels] channels)"
    by (simp add: generate_channel_acquisition_def Let_def comp_def case_prod_unfold)
  also have "\<dots> = channels"
    by (rule map_snd_zip) simp
  finally show "map fst (columns (generate_channel_acquisition npsin noise)) = channels" .
  show "\<forall>c \<in> set (columns (generate_channel_acquisition npsin noise)).
      length (snd c) = 33 \<and> (\<forall>v \<in> set (snd c). 50 \<le> v)"
    by (auto simp: generate_channel_acquisition_def Let_def dates_length channel_value_floor)
qed

text \<open>With a sine that is zero everywhere and a noise of -1000 everywhere.\<close>

theorem channel_acquisition_floor_witness:
  "columns (generate_channel_acquisition (\<lambda>_. 0) (\<lambda>_ _. - 1000)) \<noteq> [] \<and>
   snd (hd (columns (generate_channel_acquisition (\<lambda>_. 0) (\<lambda>_ _. - 1000)))) \<noteq> [] \<and>
   50 \<le> hd (snd (hd (columns (generate_channel_acquisition (\<lambda>_. 0) (\<lambda>_ _. - 1000)))))"
proof -
  let ?cols = "columns (generate_channel_acquisition (\<lambda>_. 0) (\<lambda>_ _. - 1000))"
  from channel_acquisition_floor [of "\<lambda>_. 0" "\<lambda>_ _. - 1000"]
  have names: "map fst ?cols = channels"
    and vals: "\<forall>c \<in> set ?cols. length (snd c) = 33 \<and> (\<forall>v \<in> set (snd c). 50 \<le> v)"
    by blast+
  from names have "length ?cols = 7"
    using channels_length by (metis length_map)
  then have ne: "?cols \<noteq> []"
    by auto
  then have "hd ?cols \<in> set ?cols"
    by simp
  with vals have len: "length (snd (hd ?cols)) = 33" and all: "\<forall>v \<in> set (snd (hd ?cols)). 50 \<le> v"
    by blast+
  from len have ne': "snd (hd ?cols) \<noteq> []"
    by auto
  then have "hd (snd (hd ?cols)) \<in> set (snd (hd ?cols))"
    by simp
  with all have "50 \<le> hd (snd (hd ?cols))"
    by blast
  with ne ne' show ?thesis
    by blast
qed

lemma cumsum_from_length: "length (cumsum_from acc xs) = length xs"
  by (induction xs arbitrary: acc) simp_all

lemma cumsum_length: "length (cumsum xs) = length xs"
  by (cases xs) (simp_all add: cumsum_def cumsum_from_length)

lemma linspace_length: "length (linspace start stop num) = num"
  by (simp add: linspace_def Let_def)

lemma cohort_retention_length:
  "length declines = months \<Longrightarrow> length (cohort_retention npsin months cohort_idx declines) = months"
  by (simp add: cohort_retention_def Let_def cumsum_length linspace_length)

lemma cohort_retention_range:
  "v \<in> set (cohort_retention npsin months cohort_idx declines) \<Longrightarrow> 45 \<le> v \<and> v \<le> 100"
  using clip_range [of 45 100] by (auto simp: cohort_retention_def Let_def)

text \<open>
  C8. Whatever \<open>np.sin\<close> and the random draws return: every value of every row of a cohort
  table the generator returns lies between 45 and 100, the second clip coming after the
  seasonal adjustment is added; and for at least six months (the generator is run with twelve
  cohorts and twelve months) it does return a table, with one row for each cohort and one
  value for each month.
\<close>

theorem cohort_data_range:
  "(\<forall>t. generate_cohort_data npsin early later num_cohorts months = Inr t \<longrightarrow>
      (\<forall>r \<in> set (cohort_rows t). \<forall>v \<in> set (snd r). 45 \<le> v \<and> v \<le> 100)) \<and>
   (6 \<le> months \<longrightarrow>
      (\<exists>t. generate_cohort_data npsin early later num_cohorts months = Inr t \<and>
           length (cohort_rows t) = num_cohorts \<and>
           (\<forall>r \<in> set (cohort_rows t). length (snd r) = months)))"
proof (intro conjI allI impI)
  fix t
  assume "generate_cohort_data npsin early later num_cohorts months = Inr t"
  then show "\<forall>r \<in> set (cohort_rows t). \<forall>v \<in> set (snd r). 45 \<le> v \<and> v \<le> 100"
    by (auto simp: generate_cohort_data_def Let_def split: if_splits
        dest: cohort_retention_range)
next
  assume "6 \<le> months"
  then show "\<exists>t. generate_cohort_data npsin early later num_cohorts months = Inr t \<and>
           length (cohort_rows t) = num_cohorts \<and>
           (\<forall>r \<in> set (cohort_rows t). length (snd r) = months)"
    by (auto simp: generate_cohort_data_def Let_def cohort_retention_length)
qed

text \<open>
  Twelve cohorts and twelve months, a sine that is one everywhere, early declines of 6 and
  later declines of 4.
\<close>

theorem cohort_data_range_witness:
  "\<exists>t. generate_cohort_data (\<lambda>_. 1) (\<lambda>_ _. 6) (\<lambda>_ _. 4) 12 12 = Inr t \<and>
       cohort_rows t \<noteq> [] \<and> snd (hd (cohort_rows t)) \<noteq> [] \<and>
       45 \<le> hd (snd (hd (cohort_rows t))) \<and> hd (snd (hd (cohort_rows t))) \<le> 100"
proof -
  let ?gen = "generate_cohort_data (\<lambda>_. 1) (\<lambda>_ _. 6) (\<lambda>_ _. 4) 12 12"
  have "(6::nat) \<le> 12"
    by simp
  with cohort_data_range [of "\<lambda>_. 1" "\<lambda>_ _. 6" "\<lambda>_ _. 4" 12 12] obtain t where
    t: "?gen = Inr t" and rows: "length (cohort_rows t) = 12"
    and cells: "\<forall>r \<in> set (cohort_rows t). length (snd r) = 12"
    by blast
  from cohort_data_range [of "\<lambda>_. 1" "\<lambda>_ _. 6" "\<lambda>_ _. 4" 12 12] t
  have range: "\<forall>r \<in> set (cohort_rows t). \<forall>v \<in> set (snd r). 45 \<le> v \<and> v \<le> 100"
    by blast
  from rows have ne: "cohort_rows t \<noteq> []"
    by auto
  then have first: "hd (cohort_rows t) \<in> set (cohort_rows t)"
    by simp
  with cells have "length (snd (hd (cohort_rows t))) = 12"
    by blast
  then have ne': "snd (hd (cohort_rows t)) \<noteq> []"
    by auto
  then have "hd (snd (hd (cohort_rows t))) \<in> set (snd (hd (cohort_rows t)))"
    by simp
  with range first have "45 \<le> hd (snd (hd (cohort_rows t))) \<and> hd (snd (hd (cohort_rows t))) \<le> 100"
    by blast
  with t ne ne' show ?thesis
    by blast
qed

subsection \<open>data_gen.py: the ARR movement table\<close>

lemma round_half_even_error: "\<bar>of_int (round_half_even y) - y\<bar> \<le> 1 / 2"
proof -
  have "0 \<le> y - of_int \<lfloor>y\<rfloor>" and "y - of_int \<lfloor>y\<rfloor> < 1"
    by linarith+
  then show ?thesis
    by (auto simp: round_half_even_def Let_def abs_le_iff)
qed

lemma ilog2_lower:
  assumes "0 < x"
  shows "2 powi (ilog2 x) \<le> x"
proof -
  obtain p q where pq: "quotient_of x = (p, q)"
    by (cases "quotient_of x")
  then have q: "0 < q"
    by (rule quotient_of_denom_pos)
  have x: "x = of_int p / of_int q"
    using pq by (rule quotient_of_div)
  have p: "0 < p"
    using assms q by (simp add: x zero_less_divide_iff)
  let ?d = "bitlen p - bitlen q"
  have bp: "2 ^ nat (bitlen p - 1) \<le> p" and bq: "q < 2 ^ nat (bitlen q)"
    using bitlen_bounds [OF p] bitlen_bounds [OF q] by simp_all
  have bp1: "1 \<le> bitlen p"
    using p bitlen_eq_zero_iff [of p] bitlen_nonneg [of p] by linarith
  have "(2::rat) powi (?d - 1) = 2 powi (bitlen p - 1) / 2 powi (bitlen q)"
    using power_int_diff [of "2::rat" "bitlen p - 1" "bitlen q"] by (simp add: algebra_simps)
  also have "(2::rat) powi (bitlen p - 1) = 2 ^ nat (bitlen p - 1)"
    using bp1 by (simp add: power_int_def)
  also have "(2::rat) powi (bitlen q) = 2 ^ nat (bitlen q)"
    using bitlen_nonneg [of q] by (simp add: power_int_def)
  also have "(2::rat) ^ nat (bitlen p - 1) / 2 ^ nat (bitlen q) \<le> of_int p / of_int q"
  proof -
    have "(of_int (2 ^ nat (bitlen p - 1)) :: rat) \<le> of_int p"
      using bp by (simp only: of_int_le_iff)
    then have A: "(2::rat) ^ nat (bitlen p - 1) \<le> of_int p"
      by simp
    have "(of_int q :: rat) < of_int (2 ^ nat (bitlen q))"
      using bq by (simp only: of_int_less_iff)
    then have B: "(of_int q :: rat) \<le> 2 ^ nat (bitlen q)"
      by simp
    have C: "(0::rat) < of_int q"
      using q by simp
    have D: "(0::rat) \<le> of_int p"
      using p by simp
    show ?thesis
      by (rule frac_le [OF D A C B])
  qed
  finally have lo: "2 powi (?d - 1) \<le> x"
    by (simp add: x)
  show ?thesis
  proof (cases "x < 2 powi ?d")
    case True
    then show ?thesis using lo by (simp add: ilog2_def pq)
  next
    case False
    then show ?thesis by (simp add: ilog2_def pq)
  qed
qed

text \<open>Below \<open>2 ^ 25\<close> two neighbouring doubles are at most \<open>2 ^ -28\<close> apart.\<close>

lemma round_double_error:
  assumes "\<bar>x\<bar> < 2 ^ 25"
  shows "\<bar>round_double x - x\<bar> \<le> 1 / 2 ^ 29"
proof (cases "x = 0")
  case True
  then show ?thesis by (simp add: round_double_def)
next
  case False
  let ?e = "max (ilog2 \<bar>x\<bar>) (- 1022)"
  let ?u = "(2::rat) powi (?e - 52)"
  have u: "0 < ?u"
    by simp
  have "(2::rat) powi (ilog2 \<bar>x\<bar>) < 2 powi 25"
    using ilog2_lower [of "\<bar>x\<bar>"] False assms by simp
  then have "ilog2 \<bar>x\<bar> < 25"
    by (rule power_int_le_imp_less_exp [rotated]) simp_all
  then have e: "?e - 52 \<le> - 28"
    by simp
  have "?u \<le> 2 powi (- 28)"
    using e by (rule power_int_increasing) simp
  then have u28: "?u \<le> 1 / 2 ^ 28"
    by (simp add: power_int_minus_divide)
  have rd: "round_double x = of_int (round_half_even (x / ?u)) * ?u"
    using False by (simp add: round_double_def Let_def)
  have "\<bar>round_double x - x\<bar> = \<bar>of_int (round_half_even (x / ?u)) - x / ?u\<bar> * ?u"
  proof -
    have "round_double x - x = (of_int (round_half_even (x / ?u)) - x / ?u) * ?u"
      using u by (simp add: rd algebra_simps)
    then show ?thesis
      using u by (simp add: abs_mult)
  qed
  also have "\<dots> \<le> (1 / 2) * ?u"
    using round_half_even_error [of "x / ?u"] u by (intro mult_right_mono) simp_all
  also have "\<dots> \<le> (1 / 2) * (1 / 2 ^ 28)"
    using u28 by (intro mult_left_mono) simp_all
  finally show ?thesis
    by simp
qed

lemma fadd_error: "\<bar>a + b\<bar> < 2 ^ 25 \<Longrightarrow> \<bar>fadd a b - (a + b)\<bar> \<le> 1 / 2 ^ 29"
  unfolding fadd_def by (rule round_double_error)

text \<open>
  C9. Whatever the four random draws are within the ranges \<open>np.random.uniform\<close> is called
  with, the table has the six rows (the starting balance, the four relative rows, the total),
  the ending value is the float sum of the five rows before it, added in this order, and it
  differs from their exact sum by at most one millionth of either of them.
\<close>

theorem arr_movement_balance:
  assumes "arr_draws u1 u2 u3 u4"
  shows "map arr_measure (generate_arr_movement u1 u2 u3 u4) =
           [''absolute'', ''relative'', ''relative'', ''relative'', ''relative'', ''total''] \<and>
         map arr_value (take 5 (generate_arr_movement u1 u2 u3 u4)) = [28000000, u1, u2, - u3, - u4] \<and>
         arr_value (generate_arr_movement u1 u2 u3 u4 ! 5) =
           fadd (fadd (fadd (fadd 28000000 u1) u2) (- u3)) (- u4) \<and>
         \<bar>arr_value (generate_arr_movement u1 u2 u3 u4 ! 5) -
            sum_list (map arr_value (take 5 (generate_arr_movement u1 u2 u3 u4)))\<bar>
           \<le> \<bar>arr_value (generate_arr_movement u1 u2 u3 u4 ! 5)\<bar> / 1000000 \<and>
         \<bar>arr_value (generate_arr_movement u1 u2 u3 u4 ! 5) -
            sum_list (map arr_value (take 5 (generate_arr_movement u1 u2 u3 u4)))\<bar>
           \<le> \<bar>sum_list (map arr_value (take 5 (generate_arr_movement u1 u2 u3 u4)))\<bar> / 1000000"
proof -
  let ?eps = "1 / 2 ^ 29 :: rat"
  have eps: "?eps \<le> 1"
    by simp
  from assms have r: "1500000 \<le> u1" "u1 \<le> 2500000" "800000 \<le> u2" "u2 \<le> 1500000"
    "200000 \<le> u3" "u3 \<le> 600000" "100000 \<le> u4" "u4 \<le> 500000"
    by (simp_all add: arr_draws_def)
  define t1 where "t1 = fadd 28000000 u1"
  define t2 where "t2 = fadd t1 u2"
  define t3 where "t3 = fadd t2 (- u3)"
  define t4 where "t4 = fadd t3 (- u4)"
  have p25: "(2::rat) ^ 25 = 33554432"
    by simp
  have "\<bar>28000000 + u1\<bar> < 33554432"
    using r by linarith
  then have e1: "\<bar>t1 - (28000000 + u1)\<bar> \<le> ?eps"
    unfolding t1_def by (intro fadd_error) (simp only: p25)
  have b1: "29499999 \<le> t1" "t1 \<le> 30500001"
    using e1 eps r by linarith+
  have "\<bar>t1 + u2\<bar> < 33554432"
    using b1 r by linarith
  then have e2: "\<bar>t2 - (t1 + u2)\<bar> \<le> ?eps"
    unfolding t2_def by (intro fadd_error) (simp only: p25)
  have b2: "30299998 \<le> t2" "t2 \<le> 32000002"
    using e2 eps b1 r by linarith+
  have "\<bar>t2 + - u3\<bar> < 33554432"
    using b2 r by linarith
  then have e3: "\<bar>t3 - (t2 + - u3)\<bar> \<le> ?eps"
    unfolding t3_def by (intro fadd_error) (simp only: p25)
  have b3: "29699997 \<le> t3" "t3 \<le> 31800003"
    using e3 eps b2 r by linarith+
  have "\<bar>t3 + - u4\<bar> < 33554432"
    using b3 r by linarith
  then have e4: "\<bar>t4 - (t3 + - u4)\<bar> \<le> ?eps"
    unfolding t4_def by (intro fadd_error) (simp only: p25)
  define total where "total = 28000000 + u1 + u2 + - u3 + - u4"
  have err: "\<bar>t4 - total\<bar> \<le> 4"
    unfolding total_def using e1 e2 e3 e4 eps by linarith
  have total: "29200000 \<le> total"
    unfolding total_def using r by linarith
  have t4: "29000000 \<le> t4"
    using err total by linarith
  have a: "\<bar>t4 - total\<bar> \<le> \<bar>t4\<bar> / 1000000"
    using err t4 by linarith
  have b: "\<bar>t4 - total\<bar> \<le> \<bar>total\<bar> / 1000000"
    using err total by linarith
  have rows: "arr_value (generate_arr_movement u1 u2 u3 u4 ! 5) = t4"
    "sum_list (map arr_value (take 5 (generate_arr_movement u1 u2 u3 u4))) = total"
    by (simp_all add: generate_arr_movement_def Let_def t1_def t2_def t3_def t4_def total_def)
  show ?thesis
    unfolding rows using a b
    by (simp add: generate_arr_movement_def Let_def t1_def t2_def t3_def t4_def)
qed

text \<open>The four draws at the ends of their ranges: the sum is exact.\<close>

theorem arr_movement_balance_witness:
  "arr_draws 1500000 800000 600000 500000 \<and>
   arr_value (generate_arr_movement 1500000 800000 600000 500000 ! 5) = 29200000 \<and>
   \<bar>arr_value (generate_arr_movement 1500000 800000 600000 500000 ! 5) -
      sum_list (map arr_value (take 5 (generate_arr_movement 1500000 800000 600000 500000)))\<bar>
     \<le> \<bar>arr_value (generate_arr_movement 1500000 800000 600000 500000 ! 5)\<bar> / 1000000"
proof -
  have draws: "arr_draws 1500000 800000 600000 500000"
    by (simp add: arr_draws_def)
  have "arr_value (generate_arr_movement 1500000 800000 600000 500000 ! 5) = 29200000"
    by code_simp
  with draws arr_movement_balance [OF draws] show ?thesis
    by blast
qed

end
